theory Spec2Isabelle
  imports Complex_Main "HOL-Library.Word"
begin

section \<open>Data of the component\<close>

text \<open>
  The component under verification is \<open>VideoGenerator\<close> together with its hook
  \<open>useFFmpeg\<close>. The transcoder library, the browser's object-URL registry, the
  clock and the console are outside the repository: every call into them is recorded
  in a trace, and what they answer is given by an explicit \<open>outcomes\<close> record.
\<close>

type_synonym byte = "8 word"

text \<open>The union type \<open>Uint8Array | string\<close> that \<open>readFile\<close> may return.\<close>

datatype FileData = Uint8Array "byte list" | Text string

text \<open>A browser \<open>File\<close>: its name, its MIME type and its content.\<close>

record File =
  fname :: string
  ftype :: string
  fbytes :: "byte list"

datatype GenerationState = Idle | Loading | Processing | Error string

datatype exn = Exn string

text \<open>
  An object URL is identified by the number the browser gave it. A URL is created
  either for a \<open>File\<close> (the image preview) or for a \<open>Blob\<close> with bytes and a
  MIME type (the generated video).
\<close>

type_synonym url = nat

datatype url_source = OfFile File | OfBlob "byte list" string

text \<open>The instance of the library's \<open>FFmpeg\<close> class held in \<open>ffmpegRef\<close>.\<close>

record FFmpeg =
  loaded :: bool

text \<open>Calls that leave the component, and the two \<open>setState\<close> cells of status.\<close>

datatype event =
    FFmpeg_new
  | FFmpeg_load string string string
  | FetchFile File
  | WriteFile string "byte list"
  | Exec "string list"
  | ReadFile string
  | DeleteFile string
  | CreateObjectURL url_source url
  | RevokeObjectURL url
  | ConsoleError exn
  | SetState GenerationState
  | SetFFmpegState GenerationState

section \<open>JavaScript numbers\<close>

text \<open>
  \<open>duration\<close> and \<open>fps\<close> have type \<open>number\<close>; they start as 5 and 30 and are
  set from \<open>Number(event.target.value)\<close>. The model keeps the numbers that are a
  whole number (\<open>Whole n\<close>) or a whole number plus 0.5 (\<open>Half k\<close> is
  \<open>k + 0.5\<close>), and \<open>NaN\<close>. On those, below \<open>2^52\<close> in magnitude
  (\<open>exact\<close>), the subtraction of doubles is exact and
  \<open>Number.prototype.toString\<close> prints the decimal digits. Other doubles are not
  represented.
\<close>

datatype number = Whole int | Half int | NaN


definition number_value :: "number \<Rightarrow> real option" where
  "number_value x =
     (case x of Whole n \<Rightarrow> Some (of_int n) | Half k \<Rightarrow> Some (of_int k + 1 / 2) | NaN \<Rightarrow> None)"

text \<open>\<open>a - b\<close>.\<close>

fun number_minus :: "number \<Rightarrow> number \<Rightarrow> number" where
  "number_minus (Whole a) (Whole b) = Whole (a - b)"
| "number_minus (Whole a) (Half b) = Half (a - b - 1)"
| "number_minus (Half a) (Whole b) = Half (a - b)"
| "number_minus (Half a) (Half b) = Whole (a - b)"
| "number_minus x y = NaN"

text \<open>\<open>a >= b\<close>, which is false when one side is \<open>NaN\<close>.\<close>

definition number_ge :: "number \<Rightarrow> number \<Rightarrow> bool" where
  "number_ge a b =
     (case (number_value a, number_value b) of (Some x, Some y) \<Rightarrow> y \<le> x | _ \<Rightarrow> False)"

text \<open>\<open>Math.max(a, b)\<close>, which is \<open>NaN\<close> when one argument is.\<close>

definition Math_max :: "number \<Rightarrow> number \<Rightarrow> number" where
  "Math_max a b = (if a = NaN \<or> b = NaN then NaN else if number_ge a b then a else b)"

definition digit :: "nat \<Rightarrow> char" where
  "digit d = ''0123456789'' ! (d mod 10)"

fun nat_toString :: "nat \<Rightarrow> string" where
  "nat_toString n = (if n < 10 then [digit n] else nat_toString (n div 10) @ [digit (n mod 10)])"

declare nat_toString.simps [simp del]

text \<open>The text of a number in a template literal and by \<open>toString()\<close>.\<close>

definition Number_toString :: "number \<Rightarrow> string" where
  "Number_toString x =
     (case x of
        Whole n \<Rightarrow> if n < 0 then ''-'' @ nat_toString (nat (- n)) else nat_toString (nat n)
      | Half k \<Rightarrow>
          if k < 0 then ''-'' @ nat_toString (nat (- k - 1)) @ ''.5''
          else nat_toString (nat k) @ ''.5''
      | NaN \<Rightarrow> ''NaN'')"

section \<open>The page\<close>

text \<open>
  The state: the \<open>useState\<close> cells of \<open>VideoGenerator\<close> (\<open>state\<close> is the
  component's status, \<open>ffmpegState\<close> the hook's), the hook's ref, the browser's
  registry of live object URLs with the next fresh URL, and the trace.
\<close>

record page =
  imageFile :: "File option"
  imagePreview :: "url option"
  videoUrl :: "url option"
  duration :: number
  fps :: number
  state :: GenerationState
  ffmpegState :: GenerationState
  ffmpegRef :: "FFmpeg option"
  objectURLs :: "url \<rightharpoonup> url_source"
  nextURL :: url
  trace :: "event list"

definition initial :: page where
  "initial = \<lparr> imageFile = None, imagePreview = None, videoUrl = None,
     duration = Whole 5, fps = Whole 30, state = Idle, ffmpegState = Idle, ffmpegRef = None,
     objectURLs = Map.empty, nextURL = 0, trace = [] \<rparr>"

section \<open>The filter pipeline\<close>

text \<open>\<open>Math.max(duration - 0.5, 0)\<close>, the start of the fade-out.\<close>

definition fade_out_start :: "number \<Rightarrow> number" where
  "fade_out_start d = Math_max (number_minus d (Half 0)) (Whole 0)"

text \<open>The argument list of \<open>ffmpegInstance.exec\<close>, lines 174 to 193.\<close>

definition exec_args :: "string \<Rightarrow> string \<Rightarrow> number \<Rightarrow> number \<Rightarrow> string list" where
  "exec_args inputName outputName d f =
     [''-loop'', ''1'', ''-i'', inputName, ''-c:v'', ''libx264'', ''-t'', Number_toString d,
      ''-vf'',
      ''fps='' @ Number_toString f @ '',fade=t=in:st=0:d=0.5,fade=t=out:st='' @
        Number_toString (fade_out_start d) @ '':d=0.5,format=yuv420p'',
      ''-pix_fmt'', ''yuv420p'', ''-movflags'', ''+faststart'', outputName]"

section \<open>Primitive effects\<close>

definition emit :: "event \<Rightarrow> page \<Rightarrow> page" where
  "emit e s = s\<lparr>trace := trace s @ [e]\<rparr>"

definition setState :: "GenerationState \<Rightarrow> page \<Rightarrow> page" where
  "setState g s = emit (SetState g) (s\<lparr>state := g\<rparr>)"

definition setFFmpegState :: "GenerationState \<Rightarrow> page \<Rightarrow> page" where
  "setFFmpegState g s = emit (SetFFmpegState g) (s\<lparr>ffmpegState := g\<rparr>)"

text \<open>\<open>URL.createObjectURL\<close> registers a fresh URL; \<open>URL.revokeObjectURL\<close>
  removes one (revoking a URL that is not registered changes nothing).\<close>

definition createObjectURL :: "url_source \<Rightarrow> page \<Rightarrow> url \<times> page" where
  "createObjectURL src s =
     (nextURL s,
      emit (CreateObjectURL src (nextURL s))
        (s\<lparr>objectURLs := (objectURLs s)(nextURL s \<mapsto> src), nextURL := Suc (nextURL s)\<rparr>))"

definition revokeObjectURL :: "url \<Rightarrow> page \<Rightarrow> page" where
  "revokeObjectURL u s = emit (RevokeObjectURL u) (s\<lparr>objectURLs := (objectURLs s)(u := None)\<rparr>)"

text \<open>The events a call added to the trace.\<close>

definition new_events :: "page \<Rightarrow> page \<Rightarrow> event list" where
  "new_events s s' = drop (length (trace s)) (trace s')"

section \<open>The hook \<open>useFFmpeg\<close>\<close>

definition CORE_VERSION :: string where
  "CORE_VERSION = ''0.12.9''"

definition CORE_BASE_URL :: string where
  "CORE_BASE_URL = ''https://unpkg.com/@ffmpeg/core@'' @ CORE_VERSION @ ''/dist/umd''"

text \<open>
  \<open>load\<close> is an async function. \<open>load_begin\<close> is what runs up to the \<open>await\<close>
  of line 34: it returns the instance, which is already loaded exactly when \<open>load\<close>
  returned at line 27 without calling the library. \<open>load_settle\<close> is what runs
  once the library's promise has settled: \<open>None\<close> when it resolved (the library
  has then set \<open>loaded\<close> on the instance), \<open>Some e\<close> when it rejected with \<open>e\<close>.
\<close>

definition load_begin :: "page \<Rightarrow> FFmpeg \<times> page" where
  "load_begin s =
     (let (inst, s1) =
        (case ffmpegRef s of
           None \<Rightarrow> (\<lparr>loaded = False\<rparr>, emit FFmpeg_new (s\<lparr>ffmpegRef := Some \<lparr>loaded = False\<rparr>\<rparr>))
         | Some i \<Rightarrow> (i, s))
      in if loaded inst then (inst, s1)
         else (inst,
               emit (FFmpeg_load (CORE_BASE_URL @ ''/ffmpeg-core.js'')
                       (CORE_BASE_URL @ ''/ffmpeg-core.wasm'')
                       (CORE_BASE_URL @ ''/ffmpeg-core.worker.js''))
                 (setFFmpegState Loading s1)))"

definition load_settle :: "exn option \<Rightarrow> FFmpeg \<Rightarrow> page \<Rightarrow> (exn + FFmpeg) \<times> page" where
  "load_settle r inst s =
     (case r of
        None \<Rightarrow>
          (Inr (inst\<lparr>loaded := True\<rparr>),
           setFFmpegState Idle (s\<lparr>ffmpegRef := Some (inst\<lparr>loaded := True\<rparr>)\<rparr>))
      | Some e \<Rightarrow>
          (Inl e,
           setFFmpegState (Error ''Failed to load FFmpeg. Please refresh and try again.'')
             (emit (ConsoleError e) s)))"

definition load :: "exn option \<Rightarrow> page \<Rightarrow> (exn + FFmpeg) \<times> page" where
  "load r s =
     (let (inst, s1) = load_begin s
      in if loaded inst then (Inr inst, s1) else load_settle r inst s1)"

section \<open>The component \<open>VideoGenerator\<close>\<close>

text \<open>
  A handler is made by a render and keeps the cells of that render in its closure,
  while its \<open>setState\<close> calls change the current page. A handler therefore takes
  two pages: \<open>c\<close>, the page as the render that made it saw it, which it reads,
  and \<open>s\<close>, the page it runs on. Right after a render the two are the same.
\<close>

text \<open>
  The cleanups of the effects of lines 78 to 94. When a render sees another
  \<open>imagePreview\<close> (or \<open>videoUrl\<close>) than the render before it, the cleanup of
  that previous render runs and revokes the value it saw, if there was one.
  \<open>rerender s0 s\<close> is the render of the page \<open>s\<close> when the previous render
  saw \<open>s0\<close>. A value that was set and replaced between two renders is seen by
  no render and revoked by no cleanup.
\<close>

definition cleanup :: "url option \<Rightarrow> url option \<Rightarrow> page \<Rightarrow> page" where
  "cleanup old new s =
     (case old of None \<Rightarrow> s | Some u \<Rightarrow> if new = old then s else revokeObjectURL u s)"

definition rerender :: "page \<Rightarrow> page \<Rightarrow> page" where
  "rerender s0 s =
     cleanup (videoUrl s0) (videoUrl s) (cleanup (imagePreview s0) (imagePreview s) s)"

text \<open>\<open>ffmpegRef.current?.loaded ?? false\<close>.\<close>

definition ref_loaded :: "page \<Rightarrow> bool" where
  "ref_loaded s = (case ffmpegRef s of None \<Rightarrow> False | Some i \<Rightarrow> loaded i)"

definition ready :: "page \<Rightarrow> bool" where
  "ready s = ((case ffmpegState s of Error m \<Rightarrow> False | _ \<Rightarrow> True) \<and> ref_loaded s)"

definition startsWith :: "string \<Rightarrow> string \<Rightarrow> bool" where
  "startsWith str p = (take (length p) str = p)"

definition handleImageSelection :: "page \<Rightarrow> File option \<Rightarrow> page \<Rightarrow> page" where
  "handleImageSelection c file s =
     (case file of
        None \<Rightarrow> s\<lparr>imageFile := None, imagePreview := None\<rparr>
      | Some f \<Rightarrow>
          if \<not> startsWith (ftype f) ''image/''
          then setState (Error ''Unsupported file. Please select an image.'') s
          else
            let s1 = (case imagePreview c of None \<Rightarrow> s | Some u \<Rightarrow> revokeObjectURL u s);
                (previewUrl, s2) = createObjectURL (OfFile f) s1
            in setState Idle (s2\<lparr>imageFile := Some f, imagePreview := Some previewUrl\<rparr>))"

text \<open>\<open>event.target.files?.[0] ?? null\<close>: the first file of the list, if any.\<close>

definition first_file :: "File list \<Rightarrow> File option" where
  "first_file files = (case files of [] \<Rightarrow> None | f # rest \<Rightarrow> Some f)"

definition handleFileChange :: "page \<Rightarrow> File list \<Rightarrow> page \<Rightarrow> page" where
  "handleFileChange c files s = handleImageSelection c (first_file files) s"

definition handleDrop :: "page \<Rightarrow> File list \<Rightarrow> page \<Rightarrow> page" where
  "handleDrop c files s = handleImageSelection c (first_file files) s"

definition resetVideo :: "page \<Rightarrow> page \<Rightarrow> page" where
  "resetVideo c s =
     (case videoUrl c of None \<Rightarrow> s | Some u \<Rightarrow> revokeObjectURL u s)\<lparr>videoUrl := None\<rparr>"

section \<open>\<open>generateVideo\<close>\<close>

text \<open>
  What the world answers to one call of \<open>generateVideo\<close>: the two readings of
  \<open>Date.now()\<close> and, for each awaited call, whether it rejects (\<open>Some e\<close>,
  \<open>Inl e\<close>) or resolves. \<open>load_result\<close> is consulted only if \<open>load\<close>
  has to call the library.
\<close>

record outcomes =
  load_result :: "exn option"
  now_input :: nat
  now_output :: nat
  fetchFile_result :: "exn option"
  writeFile_result :: "exn option"
  exec_result :: "exn option"
  readFile_result :: "exn + FileData"
  deleteFile_input_result :: "exn option"
  deleteFile_output_result :: "exn option"

text \<open>
  What the continuation of a call holds in its closure after the first \<open>await\<close>:
  the image, duration and fps of the render that made the handler, and the
  instance that \<open>load\<close> is about to return.
\<close>

record run =
  run_image :: File
  run_duration :: number
  run_fps :: number
  run_instance :: FFmpeg

text \<open>A string holds the UTF-8 bytes of its text, which is what
  \<open>new TextEncoder().encode\<close> returns.\<close>

definition TextEncoder_encode :: "string \<Rightarrow> byte list" where
  "TextEncoder_encode t = map (\<lambda>c. of_nat (of_char c)) t"

definition binaryData :: "FileData \<Rightarrow> byte list" where
  "binaryData fileData = (case fileData of Uint8Array b \<Rightarrow> b | Text t \<Rightarrow> TextEncoder_encode t)"

definition inputName :: "outcomes \<Rightarrow> string" where
  "inputName oc = ''input'' @ nat_toString (now_input oc) @ ''.png''"

definition outputName :: "outcomes \<Rightarrow> string" where
  "outputName oc = ''output'' @ nat_toString (now_output oc) @ ''.mp4''"

text \<open>Lines 149 to 160, up to the \<open>await\<close>: \<open>None\<close> when the function
  returned at line 154.\<close>

definition generateVideo_begin :: "page \<Rightarrow> page \<Rightarrow> run option \<times> page" where
  "generateVideo_begin c s =
     (case imageFile c of
        None \<Rightarrow> (None, setState (Error ''Please choose an image before generating.'') s)
      | Some f \<Rightarrow>
          let (inst, s1) = load_begin (resetVideo c (setState Processing s))
          in (Some \<lparr>run_image = f, run_duration = duration c, run_fps = fps c,
                     run_instance = inst\<rparr>, s1))"

text \<open>
  \<open>await call\<close> for a call whose value is not used: the call is made, and the
  rest runs only if its promise resolves (\<open>None\<close>); \<open>Some e\<close> is the
  exception thrown at the \<open>await\<close>.
\<close>

definition await :: "event \<Rightarrow> exn option \<Rightarrow> (page \<Rightarrow> exn option \<times> page) \<Rightarrow> page \<Rightarrow> exn option \<times> page" where
  "await call result rest s =
     (case result of Some e \<Rightarrow> (Some e, emit call s) | None \<Rightarrow> rest (emit call s))"

text \<open>Lines 199 to 206: the blob, its URL and the two \<open>setState\<close> calls.\<close>

definition expose :: "FileData \<Rightarrow> page \<Rightarrow> exn option \<times> page" where
  "expose fileData s =
     (let (url, s1) = createObjectURL (OfBlob (binaryData fileData) ''video/mp4'') s
      in (None, setState Idle (s1\<lparr>videoUrl := Some url\<rparr>)))"

text \<open>Lines 166 to 206 of the \<open>try\<close> block: \<open>Some e\<close> when \<open>e\<close> was thrown.\<close>

definition generateVideo_try :: "outcomes \<Rightarrow> run \<Rightarrow> page \<Rightarrow> exn option \<times> page" where
  "generateVideo_try oc r =
     await (FetchFile (run_image r)) (fetchFile_result oc)
    (await (WriteFile (inputName oc) (fbytes (run_image r))) (writeFile_result oc)
    (await (Exec (exec_args (inputName oc) (outputName oc) (run_duration r) (run_fps r)))
       (exec_result oc)
    (\<lambda>s. (case readFile_result oc of
            Inl e \<Rightarrow> (Some e, emit (ReadFile (outputName oc)) s)
          | Inr fileData \<Rightarrow>
              await (DeleteFile (inputName oc)) (deleteFile_input_result oc)
             (await (DeleteFile (outputName oc)) (deleteFile_output_result oc)
             (expose fileData))
               (emit (ReadFile (outputName oc)) s)))))"

text \<open>Lines 207 to 214, the \<open>catch\<close> block.\<close>

definition generateVideo_catch :: "exn \<Rightarrow> page \<Rightarrow> page" where
  "generateVideo_catch e s =
     setState (Error ''Something went wrong while generating the video. Please try again.'')
       (emit (ConsoleError e) s)"

text \<open>
  The rest of the call after the first \<open>await\<close>. \<open>load\<close> never resolves to
  \<open>null\<close>, so the \<open>throw\<close> of line 163 is not reached.
\<close>

definition generateVideo_resume :: "outcomes \<Rightarrow> run \<Rightarrow> page \<Rightarrow> page" where
  "generateVideo_resume oc r s =
     (let (res, s1) =
        (if loaded (run_instance r) then (Inr (run_instance r), s)
         else load_settle (load_result oc) (run_instance r) s)
      in case res of
           Inl e \<Rightarrow> generateVideo_catch e s1
         | Inr inst \<Rightarrow>
             (case generateVideo_try oc r s1 of
                (Some e, s2) \<Rightarrow> generateVideo_catch e s2
              | (None, s2) \<Rightarrow> s2))"

text \<open>A whole call, with nothing else happening between its \<open>await\<close>s.\<close>

definition generateVideo :: "page \<Rightarrow> outcomes \<Rightarrow> page \<Rightarrow> page" where
  "generateVideo c oc s =
     (case generateVideo_begin c s of
        (None, s1) \<Rightarrow> s1
      | (Some r, s1) \<Rightarrow> generateVideo_resume oc r s1)"

section \<open>What is rendered\<close>

text \<open>The status line; the ellipsis character of the source is written as three
  dots.\<close>

definition isProcessing :: "page \<Rightarrow> bool" where
  "isProcessing s = (state s = Processing)"

definition statusMessage :: "page \<Rightarrow> string" where
  "statusMessage s =
     (case state s of
        Error m \<Rightarrow> m
      | Processing \<Rightarrow> ''Generating video with FFmpeg...''
      | _ \<Rightarrow>
          if ffmpegState s = Loading
          then ''Loading FFmpeg core (runs locally in your browser)...''
          else if \<not> ready s then ''Initializing FFmpeg...'' else '''')"

text \<open>The slider, the select and the Generate button share one \<open>disabled\<close>.\<close>

definition controls_disabled :: "page \<Rightarrow> bool" where
  "controls_disabled s = (\<not> ready s \<or> isProcessing s)"





section \<open>The page as the user drives it\<close>

text \<open>
  An \<open>app\<close> is the current page \<open>ui\<close> together with the page \<open>shown\<close> as the
  last render saw it, and with what is still in flight: the instance whose
  library load, started by the mount effect, has not settled, and the calls of
  \<open>generateVideo\<close> that have not finished, oldest first. The handlers and the
  \<open>disabled\<close> attributes in the document are those of the last render.
\<close>

record app =
  ui :: page
  shown :: page
  mount_load :: "FFmpeg option"
  runs :: "run list"

datatype action =
    LoadSettles "exn option"
  | RunSettles nat outcomes
  | Render
  | FileChange "File list"
  | Drop "File list"
  | DurationChange number
  | FpsChange number
  | GenerateClick
  | ClearVideoClick

text \<open>The first render and its effect: \<open>prepare\<close> calls \<open>load\<close>, which runs
  up to its \<open>await\<close>.\<close>

definition mount :: app where
  "mount =
     (let (inst, s) = load_begin initial
      in \<lparr>ui = s, shown = initial, mount_load = (if loaded inst then None else Some inst),
          runs = []\<rparr>)"

text \<open>A render: the cleanups run against the previous render, and the new render
  is the one shown.\<close>

definition render :: "app \<Rightarrow> app" where
  "render a = a\<lparr>ui := rerender (shown a) (ui a), shown := rerender (shown a) (ui a)\<rparr>"

text \<open>The values the range input (\<open>min={2} max={12}\<close>) and the select
  (\<open>[24, 30, 60]\<close>) can report.\<close>

definition slider_value :: "number \<Rightarrow> bool" where
  "slider_value v = (case v of Whole n \<Rightarrow> 2 \<le> n \<and> n \<le> 12 | _ \<Rightarrow> False)"

definition fps_option :: "number \<Rightarrow> bool" where
  "fps_option v = (v \<in> set [Whole 24, Whole 30, Whole 60])"

text \<open>
  One event. A click, a change or a drop runs the handler of the last render on
  the current page, and React renders before the next event; a disabled control
  fires no event, and the Clear button exists only while a video is shown. The
  continuation of a promise (\<open>LoadSettles\<close>, \<open>RunSettles\<close>) only sets
  state: the render it asks for is an event of its own (\<open>Render\<close>), so that
  several continuations, or a continuation and a click, can come before one
  render. When the mount load settles, \<open>prepare\<close> drops the error \<open>load\<close>
  rethrows. \<open>RunSettles i oc\<close> lets the \<open>i\<close>-th call in flight run to its end
  with the outcomes \<open>oc\<close>.
\<close>

fun step :: "app \<Rightarrow> action \<Rightarrow> app" where
  "step a (LoadSettles r) =
     (case mount_load a of
        None \<Rightarrow> a
      | Some inst \<Rightarrow> a\<lparr>ui := snd (load_settle r inst (ui a)), mount_load := None\<rparr>)"
| "step a (RunSettles i oc) =
     (if i < length (runs a)
      then a\<lparr>ui := generateVideo_resume oc (runs a ! i) (ui a),
             runs := take i (runs a) @ drop (Suc i) (runs a)\<rparr>
      else a)"
| "step a Render = render a"
| "step a (FileChange files) = render (a\<lparr>ui := handleFileChange (shown a) files (ui a)\<rparr>)"
| "step a (Drop files) = render (a\<lparr>ui := handleDrop (shown a) files (ui a)\<rparr>)"
| "step a (DurationChange v) =
     (if controls_disabled (shown a) \<or> \<not> slider_value v then a
      else render (a\<lparr>ui := (ui a)\<lparr>duration := v\<rparr>\<rparr>))"
| "step a (FpsChange v) =
     (if controls_disabled (shown a) \<or> \<not> fps_option v then a
      else render (a\<lparr>ui := (ui a)\<lparr>fps := v\<rparr>\<rparr>))"
| "step a GenerateClick =
     (if controls_disabled (shown a) then a
      else (case generateVideo_begin (shown a) (ui a) of
              (None, s) \<Rightarrow> render (a\<lparr>ui := s\<rparr>)
            | (Some r, s) \<Rightarrow> render (a\<lparr>ui := s, runs := runs a @ [r]\<rparr>)))"
| "step a ClearVideoClick =
     (if videoUrl (shown a) = None then a
      else render (a\<lparr>ui := setState Idle (resetVideo (shown a) (ui a))\<rparr>))"

definition after_actions :: "action list \<Rightarrow> app" where
  "after_actions acts = foldl step mount acts"

section \<open>Reading a trace\<close>

definition sets_error :: "event \<Rightarrow> bool" where
  "sets_error x =
     (case x of SetState (Error m) \<Rightarrow> True | SetFFmpegState (Error m) \<Rightarrow> True | _ \<Rightarrow> False)"

text \<open>What the two \<open>catch\<close> blocks do: \<open>console.error\<close> and a
  \<open>setState\<close> of an error.\<close>

definition reports :: "event \<Rightarrow> bool" where
  "reports x = (case x of ConsoleError e \<Rightarrow> True | _ \<Rightarrow> sets_error x)"

text \<open>Calls into \<open>@ffmpeg/ffmpeg\<close> and \<open>@ffmpeg/util\<close>.\<close>

definition library_call :: "event \<Rightarrow> bool" where
  "library_call x =
     (case x of
        FFmpeg_load a b c \<Rightarrow> True | FetchFile f \<Rightarrow> True | WriteFile n d \<Rightarrow> True
      | Exec args \<Rightarrow> True | ReadFile n \<Rightarrow> True | DeleteFile n \<Rightarrow> True | _ \<Rightarrow> False)"

definition is_library_load :: "event \<Rightarrow> bool" where
  "is_library_load x = (case x of FFmpeg_load a b c \<Rightarrow> True | _ \<Rightarrow> False)"

definition library_loads :: "event list \<Rightarrow> nat" where
  "library_loads evs = length (filter is_library_load evs)"

text \<open>Calls on the loaded instance: its virtual filesystem and \<open>exec\<close>.\<close>

definition transcoder_call :: "event \<Rightarrow> bool" where
  "transcoder_call x =
     (case x of
        WriteFile n d \<Rightarrow> True | Exec args \<Rightarrow> True | ReadFile n \<Rightarrow> True
      | DeleteFile n \<Rightarrow> True | _ \<Rightarrow> False)"

definition creates_url :: "event \<Rightarrow> bool" where
  "creates_url x = (case x of CreateObjectURL src u \<Rightarrow> True | _ \<Rightarrow> False)"

definition url_event :: "event \<Rightarrow> bool" where
  "url_event x =
     (case x of CreateObjectURL src u \<Rightarrow> True | RevokeObjectURL u \<Rightarrow> True | _ \<Rightarrow> False)"

text \<open>
  The object URLs that are live after a trace, in the order of their creation,
  each with what it was created for.
\<close>

type_synonym registry = "(url \<times> url_source) list"

fun url_step :: "event \<Rightarrow> registry \<Rightarrow> registry" where
  "url_step (CreateObjectURL src u) l = l @ [(u, src)]"
| "url_step (RevokeObjectURL u) l = filter (\<lambda>p. fst p \<noteq> u) l"
| "url_step x l = l"

definition live_urls :: "registry \<Rightarrow> event list \<Rightarrow> registry" where
  "live_urls l evs = foldl (\<lambda>l x. url_step x l) l evs"

text \<open>The slot a URL belongs to: the image preview (made from a \<open>File\<close>) or the
  generated video (made from a \<open>Blob\<close>).\<close>

definition for_image :: "url \<times> url_source \<Rightarrow> bool" where
  "for_image p = (case snd p of OfFile f \<Rightarrow> True | OfBlob b m \<Rightarrow> False)"

definition image_urls :: "registry \<Rightarrow> url list" where
  "image_urls l = map fst (filter for_image l)"

definition video_urls :: "registry \<Rightarrow> url list" where
  "video_urls l = map fst (filter (\<lambda>p. \<not> for_image p) l)"

definition one_per_slot :: "registry \<Rightarrow> bool" where
  "one_per_slot l = (length (image_urls l) \<le> 1 \<and> length (video_urls l) \<le> 1)"

text \<open>\<open>P\<close> holds of the registry before the first event and after each event.\<close>

fun at_every_point :: "(registry \<Rightarrow> bool) \<Rightarrow> registry \<Rightarrow> event list \<Rightarrow> bool" where
  "at_every_point P l [] = P l"
| "at_every_point P l (x # evs) = (P l \<and> at_every_point P (url_step x l) evs)"

text \<open>What every reachable \<open>app\<close> satisfies: every call in flight has a
  loaded instance and took a duration of the slider; the library's load has been
  called once; the duration, current and shown, is a value of the slider; a
  module that a render saw loaded is loaded.\<close>

definition consistent :: "app \<Rightarrow> bool" where
  "consistent a =
     ((\<forall>r\<in>set (runs a). loaded (run_instance r) \<and> slider_value (run_duration r)) \<and>
      library_loads (trace (ui a)) = 1 \<and>
      slider_value (duration (ui a)) \<and> slider_value (duration (shown a)) \<and>
      (ref_loaded (shown a) \<longrightarrow> ref_loaded (ui a)))"

section \<open>Sample inputs\<close>

definition photo :: File where
  "photo = \<lparr>fname = ''photo.png'', ftype = ''image/png'', fbytes = [137, 80, 78, 71]\<rparr>"

definition memo :: File where
  "memo = \<lparr>fname = ''memo.txt'', ftype = ''text/plain'', fbytes = [104, 105]\<rparr>"

definition all_resolve :: outcomes where
  "all_resolve = \<lparr>load_result = None, now_input = 1700000000000, now_output = 1700000000002,
     fetchFile_result = None, writeFile_result = None, exec_result = None,
     readFile_result = Inr (Uint8Array [0, 0, 0, 24]),
     deleteFile_input_result = None, deleteFile_output_result = None\<rparr>"

definition exec_rejects :: outcomes where
  "exec_rejects = all_resolve\<lparr>exec_result := Some (Exn ''exec failed'')\<rparr>"


text \<open>The page once the module is loaded, and once \<open>photo\<close> has been chosen.\<close>

definition loaded_page :: page where
  "loaded_page = snd (load None initial)"

definition with_photo :: page where
  "with_photo = handleImageSelection loaded_page (Some photo) loaded_page"

text \<open>Generating twice, each call ending and being rendered before the next
  starts.\<close>

definition in_turn :: "action list" where
  "in_turn =
     [LoadSettles None, Render, FileChange [photo], GenerateClick,
      RunSettles 0 all_resolve, Render, GenerateClick, RunSettles 0 all_resolve, Render]"

text \<open>
  Generating twice with the second call started while the first is in flight:
  the file dropped during the first call puts the status back to \<open>Idle\<close>, and
  the render that follows enables Generate again. In \<open>overlapping\<close> a render
  comes between the ends of the two calls, in \<open>settled_together\<close> only after
  both.
\<close>

definition overlapping :: "action list" where
  "overlapping =
     [LoadSettles None, Render, FileChange [photo], GenerateClick, Drop [photo],
      GenerateClick, RunSettles 0 all_resolve, Render, RunSettles 0 all_resolve]"

definition settled_together :: "action list" where
  "settled_together =
     [LoadSettles None, Render, FileChange [photo], GenerateClick, Drop [photo],
      GenerateClick, RunSettles 0 all_resolve, RunSettles 0 all_resolve, Render]"

text \<open>
  Generating twice, the second click coming after the first call has ended but
  before the render it asked for: the handler clicked is still the one of the
  render that saw no video.
\<close>

definition clicked_before_render :: "action list" where
  "clicked_before_render =
     [LoadSettles None, Render, FileChange [photo], GenerateClick, Drop [photo],
      RunSettles 0 all_resolve, GenerateClick, RunSettles 0 all_resolve, Render]"

section \<open>Basic facts\<close>

lemmas prim_defs = emit_def setState_def setFFmpegState_def createObjectURL_def revokeObjectURL_def

lemmas num_defs = Number_toString_def nat_toString.simps digit_def number_minus.simps
  Math_max_def number_ge_def number_value_def

lemmas gv_defs = generateVideo_def generateVideo_begin_def generateVideo_resume_def
  generateVideo_try_def generateVideo_catch_def await_def expose_def load_begin_def
  load_settle_def resetVideo_def

lemmas sample_defs = with_photo_def loaded_page_def load_def load_begin_def load_settle_def
  initial_def handleImageSelection_def startsWith_def photo_def memo_def all_resolve_def
  exec_rejects_def

lemma names_differ: "inputName oc \<noteq> outputName oc"
  by (simp add: inputName_def outputName_def)

lemma sample_names:
  "inputName all_resolve = ''input1700000000000.png''"
  "outputName all_resolve = ''output1700000000002.mp4''"
  by (simp_all add: inputName_def outputName_def all_resolve_def nat_toString.simps digit_def)

lemma with_photo_run:
  "new_events with_photo (generateVideo with_photo all_resolve with_photo) =
     [SetState Processing, FetchFile photo,
      WriteFile ''input1700000000000.png'' (fbytes photo),
      Exec [''-loop'', ''1'', ''-i'', ''input1700000000000.png'', ''-c:v'', ''libx264'',
            ''-t'', ''5'', ''-vf'',
            ''fps=30,fade=t=in:st=0:d=0.5,fade=t=out:st=4.5:d=0.5,format=yuv420p'',
            ''-pix_fmt'', ''yuv420p'', ''-movflags'', ''+faststart'',
            ''output1700000000002.mp4''],
      ReadFile ''output1700000000002.mp4'', DeleteFile ''input1700000000000.png'',
      DeleteFile ''output1700000000002.mp4'',
      CreateObjectURL (OfBlob [0, 0, 0, 24] ''video/mp4'') 1, SetState Idle]"
  by (simp add: gv_defs sample_defs prim_defs new_events_def exec_args_def fade_out_start_def
      inputName_def outputName_def binaryData_def num_defs Let_def)

section \<open>The stages of \<open>generateVideo\<close>\<close>

lemma try_fetchFile_rejects:
  "fetchFile_result oc = Some e \<Longrightarrow>
   generateVideo_try oc r s = (Some e, s\<lparr>trace := trace s @ [FetchFile (run_image r)]\<rparr>)"
  by (simp add: generateVideo_try_def await_def emit_def)

lemma try_writeFile_rejects:
  "fetchFile_result oc = None \<Longrightarrow> writeFile_result oc = Some e \<Longrightarrow>
   generateVideo_try oc r s =
     (Some e, s\<lparr>trace := trace s @
        [FetchFile (run_image r), WriteFile (inputName oc) (fbytes (run_image r))]\<rparr>)"
  by (simp add: generateVideo_try_def await_def emit_def)

lemma try_exec_rejects:
  "fetchFile_result oc = None \<Longrightarrow> writeFile_result oc = None \<Longrightarrow> exec_result oc = Some e \<Longrightarrow>
   generateVideo_try oc r s =
     (Some e, s\<lparr>trace := trace s @
        [FetchFile (run_image r), WriteFile (inputName oc) (fbytes (run_image r)),
         Exec (exec_args (inputName oc) (outputName oc) (run_duration r) (run_fps r))]\<rparr>)"
  by (simp add: generateVideo_try_def await_def emit_def)

lemma try_readFile_rejects:
  "fetchFile_result oc = None \<Longrightarrow> writeFile_result oc = None \<Longrightarrow> exec_result oc = None \<Longrightarrow>
   readFile_result oc = Inl e \<Longrightarrow>
   generateVideo_try oc r s =
     (Some e, s\<lparr>trace := trace s @
        [FetchFile (run_image r), WriteFile (inputName oc) (fbytes (run_image r)),
         Exec (exec_args (inputName oc) (outputName oc) (run_duration r) (run_fps r)),
         ReadFile (outputName oc)]\<rparr>)"
  by (simp add: generateVideo_try_def await_def emit_def)

lemma try_deleteFile_input_rejects:
  "fetchFile_result oc = None \<Longrightarrow> writeFile_result oc = None \<Longrightarrow> exec_result oc = None \<Longrightarrow>
   readFile_result oc = Inr d \<Longrightarrow> deleteFile_input_result oc = Some e \<Longrightarrow>
   generateVideo_try oc r s =
     (Some e, s\<lparr>trace := trace s @
        [FetchFile (run_image r), WriteFile (inputName oc) (fbytes (run_image r)),
         Exec (exec_args (inputName oc) (outputName oc) (run_duration r) (run_fps r)),
         ReadFile (outputName oc), DeleteFile (inputName oc)]\<rparr>)"
  by (simp add: generateVideo_try_def await_def emit_def)

lemma try_deleteFile_output_rejects:
  "fetchFile_result oc = None \<Longrightarrow> writeFile_result oc = None \<Longrightarrow> exec_result oc = None \<Longrightarrow>
   readFile_result oc = Inr d \<Longrightarrow> deleteFile_input_result oc = None \<Longrightarrow>
   deleteFile_output_result oc = Some e \<Longrightarrow>
   generateVideo_try oc r s =
     (Some e, s\<lparr>trace := trace s @
        [FetchFile (run_image r), WriteFile (inputName oc) (fbytes (run_image r)),
         Exec (exec_args (inputName oc) (outputName oc) (run_duration r) (run_fps r)),
         ReadFile (outputName oc), DeleteFile (inputName oc), DeleteFile (outputName oc)]\<rparr>)"
  by (simp add: generateVideo_try_def await_def emit_def)

lemma try_all_resolve:
  "fetchFile_result oc = None \<Longrightarrow> writeFile_result oc = None \<Longrightarrow> exec_result oc = None \<Longrightarrow>
   readFile_result oc = Inr d \<Longrightarrow> deleteFile_input_result oc = None \<Longrightarrow>
   deleteFile_output_result oc = None \<Longrightarrow>
   generateVideo_try oc r s =
     (None, s\<lparr>objectURLs := (objectURLs s)(nextURL s \<mapsto> OfBlob (binaryData d) ''video/mp4''),
            nextURL := Suc (nextURL s),
            videoUrl := Some (nextURL s),
            state := Idle,
            trace := trace s @
        [FetchFile (run_image r), WriteFile (inputName oc) (fbytes (run_image r)),
         Exec (exec_args (inputName oc) (outputName oc) (run_duration r) (run_fps r)),
         ReadFile (outputName oc), DeleteFile (inputName oc), DeleteFile (outputName oc),
         CreateObjectURL (OfBlob (binaryData d) ''video/mp4'') (nextURL s), SetState Idle]\<rparr>)"
  by (simp add: generateVideo_try_def await_def expose_def prim_defs)

text \<open>A \<open>try\<close> block that throws has made a non-empty initial part of the calls
  of a successful one, and nothing else.\<close>

lemma try_throws:
  assumes "generateVideo_try oc r s = (Some e, s')"
  shows "\<exists>n. 0 < n \<and> n \<le> 6 \<and>
     s' = s\<lparr>trace := trace s @ take n
        [FetchFile (run_image r), WriteFile (inputName oc) (fbytes (run_image r)),
         Exec (exec_args (inputName oc) (outputName oc) (run_duration r) (run_fps r)),
         ReadFile (outputName oc), DeleteFile (inputName oc), DeleteFile (outputName oc)]\<rparr>"
proof (cases "fetchFile_result oc")
  case (Some a)
  with assms show ?thesis
    by (intro exI [of _ 1]) (simp add: try_fetchFile_rejects)
next
  case f: None
  show ?thesis
  proof (cases "writeFile_result oc")
    case (Some a)
    with f assms show ?thesis
      by (intro exI [of _ 2]) (simp add: try_writeFile_rejects)
  next
    case w: None
    show ?thesis
    proof (cases "exec_result oc")
      case (Some a)
      with f w assms show ?thesis
        by (intro exI [of _ 3]) (simp add: try_exec_rejects)
    next
      case x: None
      show ?thesis
      proof (cases "readFile_result oc")
        case (Inl a)
        with f w x assms show ?thesis
          by (intro exI [of _ 4]) (simp add: try_readFile_rejects)
      next
        case rd: (Inr d)
        show ?thesis
        proof (cases "deleteFile_input_result oc")
          case (Some a)
          with f w x rd assms show ?thesis
            by (intro exI [of _ 5]) (simp add: try_deleteFile_input_rejects)
        next
          case di: None
          show ?thesis
          proof (cases "deleteFile_output_result oc")
            case (Some a)
            with f w x rd di assms show ?thesis
              by (intro exI [of _ 6]) (simp add: try_deleteFile_output_rejects)
          next
            case None
            with f w x rd di assms show ?thesis
              by (simp add: try_all_resolve)
          qed
        qed
      qed
    qed
  qed
qed

lemma try_returns:
  assumes "generateVideo_try oc r s = (None, s')"
  shows "\<exists>d. fetchFile_result oc = None \<and> writeFile_result oc = None \<and> exec_result oc = None \<and>
     readFile_result oc = Inr d \<and> deleteFile_input_result oc = None \<and>
     deleteFile_output_result oc = None"
  using assms
  by (auto simp: generateVideo_try_def await_def split: option.splits sum.splits)

lemma trace_resetVideo:
  "trace (resetVideo c s) =
     trace s @ (case videoUrl c of None \<Rightarrow> [] | Some v \<Rightarrow> [RevokeObjectURL v])"
  by (simp add: resetVideo_def prim_defs split: option.splits)

text \<open>Up to the first \<open>await\<close>: the status is set, the video is reset, and the
  library is asked to load only if the held instance is not loaded yet.\<close>

lemma begin_page:
  assumes "imageFile c = Some f"
  shows "generateVideo_begin c s =
     (Some \<lparr>run_image = f, run_duration = duration c, run_fps = fps c,
             run_instance = (case ffmpegRef s of None \<Rightarrow> \<lparr>loaded = False\<rparr> | Some i \<Rightarrow> i)\<rparr>,
      s\<lparr>state := Processing, videoUrl := None,
        objectURLs := (case videoUrl c of None \<Rightarrow> objectURLs s
                       | Some v \<Rightarrow> (objectURLs s)(v := None)),
        ffmpegRef := Some (case ffmpegRef s of None \<Rightarrow> \<lparr>loaded = False\<rparr> | Some i \<Rightarrow> i),
        ffmpegState := (if ref_loaded s then ffmpegState s else Loading),
        trace := trace s @ SetState Processing #
          (case videoUrl c of None \<Rightarrow> [] | Some v \<Rightarrow> [RevokeObjectURL v]) @
          (case ffmpegRef s of None \<Rightarrow> [FFmpeg_new] | Some i \<Rightarrow> []) @
          (if ref_loaded s then []
           else [SetFFmpegState Loading,
                 FFmpeg_load (CORE_BASE_URL @ ''/ffmpeg-core.js'')
                   (CORE_BASE_URL @ ''/ffmpeg-core.wasm'')
                   (CORE_BASE_URL @ ''/ffmpeg-core.worker.js'')])\<rparr>)"
proof (cases "ffmpegRef s")
  case None
  with assms show ?thesis
    by (cases "videoUrl c")
       (simp_all add: generateVideo_begin_def load_begin_def resetVideo_def prim_defs
          ref_loaded_def)
next
  case (Some i)
  with assms show ?thesis
    by (cases "videoUrl c"; cases "loaded i")
       (simp_all add: generateVideo_begin_def load_begin_def resetVideo_def prim_defs
          ref_loaded_def)
qed

lemma begin_facts:
  assumes "imageFile c = Some f"
  shows "\<exists>inst s1 pre. generateVideo_begin c s =
       (Some \<lparr>run_image = f, run_duration = duration c, run_fps = fps c, run_instance = inst\<rparr>, s1)
     \<and> inst = (case ffmpegRef s of None \<Rightarrow> \<lparr>loaded = False\<rparr> | Some i \<Rightarrow> i)
     \<and> s1 = s\<lparr>state := Processing, videoUrl := None,
           objectURLs := (case videoUrl c of None \<Rightarrow> objectURLs s
                          | Some v \<Rightarrow> (objectURLs s)(v := None)),
           ffmpegRef := Some inst,
           ffmpegState := (if loaded inst then ffmpegState s else Loading),
           trace := trace s @ SetState Processing # pre\<rparr>
     \<and> trace s1 = trace s @ SetState Processing # pre
     \<and> (\<forall>x\<in>set pre. \<not> reports x \<and> \<not> transcoder_call x \<and> \<not> creates_url x)
     \<and> filter library_call pre =
          (if loaded inst then []
           else [FFmpeg_load (CORE_BASE_URL @ ''/ffmpeg-core.js'')
                   (CORE_BASE_URL @ ''/ffmpeg-core.wasm'')
                   (CORE_BASE_URL @ ''/ffmpeg-core.worker.js'')])
     \<and> (\<not> loaded inst \<longrightarrow> pre \<noteq> [] \<and> library_call (last pre))
     \<and> loaded inst = ref_loaded s
     \<and> videoUrl s1 = None \<and> imagePreview s1 = imagePreview s \<and> nextURL s1 = nextURL s"
proof -
  let ?inst = "case ffmpegRef s of None \<Rightarrow> \<lparr>loaded = False\<rparr> | Some i \<Rightarrow> i"
  let ?pre = "(case videoUrl c of None \<Rightarrow> [] | Some v \<Rightarrow> [RevokeObjectURL v]) @
          (case ffmpegRef s of None \<Rightarrow> [FFmpeg_new] | Some i \<Rightarrow> []) @
          (if ref_loaded s then []
           else [SetFFmpegState Loading,
                 FFmpeg_load (CORE_BASE_URL @ ''/ffmpeg-core.js'')
                   (CORE_BASE_URL @ ''/ffmpeg-core.wasm'')
                   (CORE_BASE_URL @ ''/ffmpeg-core.worker.js'')])"
  have l: "loaded ?inst = ref_loaded s"
    by (simp add: ref_loaded_def split: option.splits)
  have p: "\<forall>x\<in>set ?pre. \<not> reports x \<and> \<not> transcoder_call x \<and> \<not> creates_url x"
    by (auto simp: reports_def sets_error_def transcoder_call_def creates_url_def
        split: option.splits)
  have f: "filter library_call ?pre =
          (if loaded ?inst then []
           else [FFmpeg_load (CORE_BASE_URL @ ''/ffmpeg-core.js'')
                   (CORE_BASE_URL @ ''/ffmpeg-core.wasm'')
                   (CORE_BASE_URL @ ''/ffmpeg-core.worker.js'')])"
    unfolding l by (simp add: library_call_def split: option.splits)
  have n: "\<not> loaded ?inst \<longrightarrow> ?pre \<noteq> [] \<and> library_call (last ?pre)"
    unfolding l by (simp add: library_call_def)
  show ?thesis
    apply (rule exI [of _ ?inst])
    apply (rule exI [of _ "snd (generateVideo_begin c s)"])
    apply (rule exI [of _ ?pre])
    using l p f n by (simp add: begin_page [OF assms])
qed

lemma resume_loaded:
  "loaded (run_instance r) \<Longrightarrow>
   generateVideo_resume oc r s =
     (case generateVideo_try oc r s of
        (None, s2) \<Rightarrow> s2 | (Some e, s2) \<Rightarrow> generateVideo_catch e s2)"
  by (simp add: generateVideo_resume_def split: prod.splits option.splits)

lemma resume_load_rejects:
  "\<not> loaded (run_instance r) \<Longrightarrow> load_result oc = Some e \<Longrightarrow>
   generateVideo_resume oc r s =
     s\<lparr>ffmpegState := Error ''Failed to load FFmpeg. Please refresh and try again.'',
       state := Error ''Something went wrong while generating the video. Please try again.'',
       trace := trace s @
         [ConsoleError e,
          SetFFmpegState (Error ''Failed to load FFmpeg. Please refresh and try again.''),
          ConsoleError e,
          SetState (Error ''Something went wrong while generating the video. Please try again.'')]\<rparr>"
  by (simp add: generateVideo_resume_def load_settle_def generateVideo_catch_def prim_defs)

lemma resume_load_resolves:
  "\<not> loaded (run_instance r) \<Longrightarrow> load_result oc = None \<Longrightarrow>
   generateVideo_resume oc r s =
     (case generateVideo_try oc r
        (s\<lparr>ffmpegRef := Some ((run_instance r)\<lparr>loaded := True\<rparr>), ffmpegState := Idle,
           trace := trace s @ [SetFFmpegState Idle]\<rparr>) of
        (None, s2) \<Rightarrow> s2 | (Some e, s2) \<Rightarrow> generateVideo_catch e s2)"
  by (simp add: generateVideo_resume_def load_settle_def prim_defs split: prod.splits option.splits)

text \<open>A call that ends in the status \<open>Idle\<close> has gone through the whole
  \<open>try\<close> block.\<close>

lemma resume_idle:
  assumes "state (generateVideo_resume oc r s) = Idle"
  shows "\<exists>d. readFile_result oc = Inr d
     \<and> trace (generateVideo_resume oc r s) =
         trace s @ (if loaded (run_instance r) then [] else [SetFFmpegState Idle]) @
         [FetchFile (run_image r), WriteFile (inputName oc) (fbytes (run_image r)),
          Exec (exec_args (inputName oc) (outputName oc) (run_duration r) (run_fps r)),
          ReadFile (outputName oc), DeleteFile (inputName oc), DeleteFile (outputName oc),
          CreateObjectURL (OfBlob (binaryData d) ''video/mp4'') (nextURL s), SetState Idle]
     \<and> videoUrl (generateVideo_resume oc r s) = Some (nextURL s)
     \<and> imagePreview (generateVideo_resume oc r s) = imagePreview s
     \<and> nextURL (generateVideo_resume oc r s) = Suc (nextURL s)
     \<and> objectURLs (generateVideo_resume oc r s) =
         (objectURLs s)(nextURL s \<mapsto> OfBlob (binaryData d) ''video/mp4'')"
proof -
  have catch: "\<And>e s2. state (generateVideo_catch e s2) \<noteq> Idle"
    by (simp add: generateVideo_catch_def prim_defs)
  show ?thesis
  proof (cases "loaded (run_instance r)")
    case True
    obtain x s2 where t: "generateVideo_try oc r s = (x, s2)"
      by (cases "generateVideo_try oc r s")
    with assms True catch have x: "x = None"
      by (cases x) (auto simp: resume_loaded)
    from try_returns [OF t [unfolded x]] obtain d where
      "fetchFile_result oc = None" "writeFile_result oc = None" "exec_result oc = None"
      "readFile_result oc = Inr d" "deleteFile_input_result oc = None"
      "deleteFile_output_result oc = None"
      by blast
    then show ?thesis
      using True by (simp add: resume_loaded try_all_resolve)
  next
    case False
    show ?thesis
    proof (cases "load_result oc")
      case (Some e)
      with assms False show ?thesis
        by (simp add: resume_load_rejects)
    next
      case None
      let ?s = "s\<lparr>ffmpegRef := Some ((run_instance r)\<lparr>loaded := True\<rparr>), ffmpegState := Idle,
           trace := trace s @ [SetFFmpegState Idle]\<rparr>"
      obtain x s2 where t: "generateVideo_try oc r ?s = (x, s2)"
        by (cases "generateVideo_try oc r ?s")
      with assms False None catch have x: "x = None"
        by (cases x) (auto simp: resume_load_resolves)
      from try_returns [OF t [unfolded x]] obtain d where
        "fetchFile_result oc = None" "writeFile_result oc = None" "exec_result oc = None"
        "readFile_result oc = Inr d" "deleteFile_input_result oc = None"
        "deleteFile_output_result oc = None"
        by blast
      then show ?thesis
        using False None by (simp add: resume_load_resolves try_all_resolve)
    qed
  qed
qed

text \<open>A call that does not end in \<open>Idle\<close> has stopped at a rejected call and
  gone through the \<open>catch\<close> block.\<close>

lemma resume_not_idle:
  assumes "state (generateVideo_resume oc r s) \<noteq> Idle"
  shows "\<exists>e n. 0 < n \<and> n \<le> 6
     \<and> trace (generateVideo_resume oc r s) =
         trace s @
         (if \<not> loaded (run_instance r) \<and> load_result oc \<noteq> None
          then [ConsoleError e,
                SetFFmpegState (Error ''Failed to load FFmpeg. Please refresh and try again.'')]
          else (if loaded (run_instance r) then [] else [SetFFmpegState Idle]) @
               take n
                 [FetchFile (run_image r), WriteFile (inputName oc) (fbytes (run_image r)),
                  Exec (exec_args (inputName oc) (outputName oc) (run_duration r) (run_fps r)),
                  ReadFile (outputName oc), DeleteFile (inputName oc),
                  DeleteFile (outputName oc)]) @
         [ConsoleError e,
          SetState (Error ''Something went wrong while generating the video. Please try again.'')]
     \<and> state (generateVideo_resume oc r s) =
         Error ''Something went wrong while generating the video. Please try again.''
     \<and> videoUrl (generateVideo_resume oc r s) = videoUrl s
     \<and> imagePreview (generateVideo_resume oc r s) = imagePreview s
     \<and> nextURL (generateVideo_resume oc r s) = nextURL s
     \<and> objectURLs (generateVideo_resume oc r s) = objectURLs s
     \<and> generateVideo_resume oc r s =
         s\<lparr>state := Error ''Something went wrong while generating the video. Please try again.'',
           ffmpegRef :=
             (if \<not> loaded (run_instance r) \<and> load_result oc = None
              then Some ((run_instance r)\<lparr>loaded := True\<rparr>) else ffmpegRef s),
           ffmpegState :=
             (if loaded (run_instance r) then ffmpegState s
              else if load_result oc = None then Idle
              else Error ''Failed to load FFmpeg. Please refresh and try again.''),
           trace := trace (generateVideo_resume oc r s)\<rparr>"
proof (cases "loaded (run_instance r)")
  case True
  obtain x s2 where t: "generateVideo_try oc r s = (x, s2)"
    by (cases "generateVideo_try oc r s")
  show ?thesis
  proof (cases x)
    case None
    from try_returns [OF t [unfolded None]] obtain d where
      "fetchFile_result oc = None" "writeFile_result oc = None" "exec_result oc = None"
      "readFile_result oc = Inr d" "deleteFile_input_result oc = None"
      "deleteFile_output_result oc = None"
      by blast
    with assms True show ?thesis
      by (simp add: resume_loaded try_all_resolve)
  next
    case (Some e)
    from try_throws [OF t [unfolded Some]] obtain n where n: "0 < n" "n \<le> 6"
      "s2 = s\<lparr>trace := trace s @ take n
        [FetchFile (run_image r), WriteFile (inputName oc) (fbytes (run_image r)),
         Exec (exec_args (inputName oc) (outputName oc) (run_duration r) (run_fps r)),
         ReadFile (outputName oc), DeleteFile (inputName oc), DeleteFile (outputName oc)]\<rparr>"
      by blast
    show ?thesis
      using True t Some n
      by (intro exI [of _ e] exI [of _ n])
         (simp add: resume_loaded generateVideo_catch_def prim_defs)
  qed
next
  case False
  show ?thesis
  proof (cases "load_result oc")
    case (Some e)
    with False show ?thesis
      by (intro exI [of _ e] exI [of _ 1]) (simp add: resume_load_rejects)
  next
    case None
    let ?s = "s\<lparr>ffmpegRef := Some ((run_instance r)\<lparr>loaded := True\<rparr>), ffmpegState := Idle,
         trace := trace s @ [SetFFmpegState Idle]\<rparr>"
    obtain x s2 where t: "generateVideo_try oc r ?s = (x, s2)"
      by (cases "generateVideo_try oc r ?s")
    show ?thesis
    proof (cases x)
      case n: None
      from try_returns [OF t [unfolded n]] obtain d where
        "fetchFile_result oc = None" "writeFile_result oc = None" "exec_result oc = None"
        "readFile_result oc = Inr d" "deleteFile_input_result oc = None"
        "deleteFile_output_result oc = None"
        by blast
      with assms False None show ?thesis
        by (simp add: resume_load_resolves try_all_resolve)
    next
      case (Some e)
      from try_throws [OF t [unfolded Some]] obtain n where n: "0 < n" "n \<le> 6"
        "s2 = ?s\<lparr>trace := trace ?s @ take n
          [FetchFile (run_image r), WriteFile (inputName oc) (fbytes (run_image r)),
           Exec (exec_args (inputName oc) (outputName oc) (run_duration r) (run_fps r)),
           ReadFile (outputName oc), DeleteFile (inputName oc), DeleteFile (outputName oc)]\<rparr>"
        by blast
      show ?thesis
        using False None t Some n
        by (intro exI [of _ e] exI [of _ n])
           (simp add: resume_load_resolves generateVideo_catch_def prim_defs)
    qed
  qed
qed

lemma generateVideo_with_image:
  assumes "generateVideo_begin c s = (Some r, s1)"
  shows "generateVideo c oc s = generateVideo_resume oc r s1"
  using assms by (simp add: generateVideo_def)

lemma exec_of_generateVideo:
  assumes "Exec args \<in> set (new_events s (generateVideo c oc s))"
  shows "args = exec_args (inputName oc) (outputName oc) (duration c) (fps c)"
proof (cases "imageFile c")
  case None
  with assms show ?thesis
    by (simp add: generateVideo_def generateVideo_begin_def prim_defs new_events_def)
next
  case (Some f)
  from begin_facts [OF Some] obtain inst s1 pre where
    b: "generateVideo_begin c s =
       (Some \<lparr>run_image = f, run_duration = duration c, run_fps = fps c, run_instance = inst\<rparr>, s1)"
    and t: "trace s1 = trace s @ SetState Processing # pre"
    and p: "\<forall>x\<in>set pre. \<not> reports x \<and> \<not> transcoder_call x \<and> \<not> creates_url x"
    by blast
  let ?r = "\<lparr>run_image = f, run_duration = duration c, run_fps = fps c, run_instance = inst\<rparr>"
  have g: "generateVideo c oc s = generateVideo_resume oc ?r s1"
    by (rule generateVideo_with_image [OF b])
  have np: "Exec args \<notin> set pre"
    using p by (auto simp: transcoder_call_def)
  show ?thesis
  proof (cases "state (generateVideo_resume oc ?r s1) = Idle")
    case True
    from resume_idle [OF True] obtain d where
      "trace (generateVideo_resume oc ?r s1) =
         trace s1 @ (if loaded (run_instance ?r) then [] else [SetFFmpegState Idle]) @
         [FetchFile (run_image ?r), WriteFile (inputName oc) (fbytes (run_image ?r)),
          Exec (exec_args (inputName oc) (outputName oc) (run_duration ?r) (run_fps ?r)),
          ReadFile (outputName oc), DeleteFile (inputName oc), DeleteFile (outputName oc),
          CreateObjectURL (OfBlob (binaryData d) ''video/mp4'') (nextURL s1), SetState Idle]"
      by blast
    with assms g t np show ?thesis
      by (auto simp: new_events_def split: if_splits)
  next
    case False
    from resume_not_idle [OF False] obtain e n where
      "trace (generateVideo_resume oc ?r s1) =
         trace s1 @
         (if \<not> loaded (run_instance ?r) \<and> load_result oc \<noteq> None
          then [ConsoleError e,
                SetFFmpegState (Error ''Failed to load FFmpeg. Please refresh and try again.'')]
          else (if loaded (run_instance ?r) then [] else [SetFFmpegState Idle]) @
               take n
                 [FetchFile (run_image ?r), WriteFile (inputName oc) (fbytes (run_image ?r)),
                  Exec (exec_args (inputName oc) (outputName oc) (run_duration ?r) (run_fps ?r)),
                  ReadFile (outputName oc), DeleteFile (inputName oc),
                  DeleteFile (outputName oc)]) @
         [ConsoleError e,
          SetState (Error ''Something went wrong while generating the video. Please try again.'')]"
      by blast
    with assms g t np show ?thesis
      by (auto simp: new_events_def split: if_splits dest!: in_set_takeD)
  qed
qed

section \<open>A successful run\<close>

lemma generateVideo_idle:
  assumes "state (generateVideo c oc s) = Idle"
  shows "\<exists>f d pre. imageFile c = Some f \<and> readFile_result oc = Inr d
     \<and> new_events s (generateVideo c oc s) =
         pre @
         [FetchFile f, WriteFile (inputName oc) (fbytes f),
          Exec (exec_args (inputName oc) (outputName oc) (duration c) (fps c)),
          ReadFile (outputName oc), DeleteFile (inputName oc), DeleteFile (outputName oc),
          CreateObjectURL (OfBlob (binaryData d) ''video/mp4'') (nextURL s), SetState Idle]
     \<and> (\<forall>x\<in>set pre. \<not> transcoder_call x \<and> \<not> creates_url x)
     \<and> videoUrl (generateVideo c oc s) = Some (nextURL s)
     \<and> imagePreview (generateVideo c oc s) = imagePreview s
     \<and> objectURLs (generateVideo c oc s) (nextURL s) = Some (OfBlob (binaryData d) ''video/mp4'')"
proof (cases "imageFile c")
  case None
  with assms show ?thesis
    by (simp add: generateVideo_def generateVideo_begin_def prim_defs)
next
  case (Some f)
  from begin_facts [OF Some] obtain inst s1 pre where
    b: "generateVideo_begin c s =
       (Some \<lparr>run_image = f, run_duration = duration c, run_fps = fps c, run_instance = inst\<rparr>, s1)"
    and t: "trace s1 = trace s @ SetState Processing # pre"
    and p: "\<forall>x\<in>set pre. \<not> reports x \<and> \<not> transcoder_call x \<and> \<not> creates_url x"
    and c: "imagePreview s1 = imagePreview s" "nextURL s1 = nextURL s"
    by blast
  let ?r = "\<lparr>run_image = f, run_duration = duration c, run_fps = fps c, run_instance = inst\<rparr>"
  let ?mid = "if loaded inst then [] else [SetFFmpegState Idle]"
  have g: "generateVideo c oc s = generateVideo_resume oc ?r s1"
    by (rule generateVideo_with_image [OF b])
  from resume_idle [of oc ?r s1] assms g obtain d where
    d: "readFile_result oc = Inr d"
    and tr: "trace (generateVideo_resume oc ?r s1) =
         trace s1 @ ?mid @
         [FetchFile f, WriteFile (inputName oc) (fbytes f),
          Exec (exec_args (inputName oc) (outputName oc) (duration c) (fps c)),
          ReadFile (outputName oc), DeleteFile (inputName oc), DeleteFile (outputName oc),
          CreateObjectURL (OfBlob (binaryData d) ''video/mp4'') (nextURL s1), SetState Idle]"
    and v: "videoUrl (generateVideo_resume oc ?r s1) = Some (nextURL s1)"
    and i: "imagePreview (generateVideo_resume oc ?r s1) = imagePreview s1"
    and u: "objectURLs (generateVideo_resume oc ?r s1) =
         (objectURLs s1)(nextURL s1 \<mapsto> OfBlob (binaryData d) ''video/mp4'')"
    by auto
  have ev: "new_events s (generateVideo c oc s) =
      (SetState Processing # pre @ ?mid) @
      [FetchFile f, WriteFile (inputName oc) (fbytes f),
       Exec (exec_args (inputName oc) (outputName oc) (duration c) (fps c)),
       ReadFile (outputName oc), DeleteFile (inputName oc), DeleteFile (outputName oc),
       CreateObjectURL (OfBlob (binaryData d) ''video/mp4'') (nextURL s), SetState Idle]"
    using g t tr c by (simp add: new_events_def)
  have pre: "\<forall>x\<in>set (SetState Processing # pre @ ?mid). \<not> transcoder_call x \<and> \<not> creates_url x"
    using p by (auto simp: transcoder_call_def creates_url_def)
  show ?thesis
  proof (intro exI conjI)
    show "imageFile c = Some f" by fact
    show "readFile_result oc = Inr d" by fact
    show "new_events s (generateVideo c oc s) =
      (SetState Processing # pre @ ?mid) @
      [FetchFile f, WriteFile (inputName oc) (fbytes f),
       Exec (exec_args (inputName oc) (outputName oc) (duration c) (fps c)),
       ReadFile (outputName oc), DeleteFile (inputName oc), DeleteFile (outputName oc),
       CreateObjectURL (OfBlob (binaryData d) ''video/mp4'') (nextURL s), SetState Idle]"
      by (rule ev)
    show "\<forall>x\<in>set (SetState Processing # pre @ ?mid). \<not> transcoder_call x \<and> \<not> creates_url x"
      by (rule pre)
    show "videoUrl (generateVideo c oc s) = Some (nextURL s)"
      using v g c by simp
    show "imagePreview (generateVideo c oc s) = imagePreview s"
      using i g c by simp
    show "objectURLs (generateVideo c oc s) (nextURL s) = Some (OfBlob (binaryData d) ''video/mp4'')"
      using u g c by simp
  qed
qed

lemma with_photo_cells:
  "imageFile with_photo = Some photo" "imagePreview with_photo = Some 0"
  "videoUrl with_photo = None" "duration with_photo = Whole 5" "fps with_photo = Whole 30"
  "nextURL with_photo = 1" "ref_loaded with_photo" "state with_photo = Idle"
  by (simp_all add: sample_defs prim_defs ref_loaded_def Let_def)

lemma with_photo_run_idle: "state (generateVideo with_photo all_resolve with_photo) = Idle"
  by (simp add: gv_defs sample_defs prim_defs Let_def)

text \<open>
  C2. A call of \<open>generateVideo\<close> that succeeds (it ends in the status \<open>Idle\<close>)
  makes these calls, in this order and each once: the bytes of the selected image
  are written into the virtual filesystem under the input name, \<open>exec\<close> is
  invoked, the output file is read back, both files are deleted, and a blob URL
  for the result is created and stored in \<open>videoUrl\<close>. Before them the call only
  sets the status, resets the video and, if needed, loads the module.
\<close>

theorem successful_run_order:
  assumes "state (generateVideo c oc s) = Idle"
  shows "\<exists>f d u pre. imageFile c = Some f \<and> readFile_result oc = Inr d
     \<and> new_events s (generateVideo c oc s) =
         pre @
         [FetchFile f, WriteFile (inputName oc) (fbytes f),
          Exec (exec_args (inputName oc) (outputName oc) (duration c) (fps c)),
          ReadFile (outputName oc), DeleteFile (inputName oc), DeleteFile (outputName oc),
          CreateObjectURL (OfBlob (binaryData d) ''video/mp4'') u, SetState Idle]
     \<and> (\<forall>x\<in>set pre. \<not> transcoder_call x \<and> \<not> creates_url x)
     \<and> videoUrl (generateVideo c oc s) = Some u"
  using generateVideo_idle [OF assms] by blast

theorem successful_run_order_witness:
  "state (generateVideo with_photo all_resolve with_photo) = Idle
   \<and> (\<exists>u pre. new_events with_photo (generateVideo with_photo all_resolve with_photo) =
         pre @
         [FetchFile photo, WriteFile ''input1700000000000.png'' [137, 80, 78, 71],
          Exec (exec_args ''input1700000000000.png'' ''output1700000000002.mp4'' (Whole 5) (Whole 30)),
          ReadFile ''output1700000000002.mp4'', DeleteFile ''input1700000000000.png'',
          DeleteFile ''output1700000000002.mp4'',
          CreateObjectURL (OfBlob [0, 0, 0, 24] ''video/mp4'') u, SetState Idle]
       \<and> (\<forall>x\<in>set pre. \<not> transcoder_call x \<and> \<not> creates_url x)
       \<and> videoUrl (generateVideo with_photo all_resolve with_photo) = Some u)"
proof -
  have d: "readFile_result all_resolve = Inr (Uint8Array [0, 0, 0, 24])"
    by (simp add: all_resolve_def)
  have b: "fbytes photo = [137, 80, 78, 71]"
    by (simp add: photo_def)
  from successful_run_order [OF with_photo_run_idle] show ?thesis
    by (simp add: with_photo_run_idle with_photo_cells sample_names d b binaryData_def)
qed



section \<open>Failures\<close>

lemma load_rejected:
  assumes "\<not> ref_loaded s"
  shows "load (Some e) s =
     (Inl e,
      s\<lparr>ffmpegRef := Some (case ffmpegRef s of None \<Rightarrow> \<lparr>loaded = False\<rparr> | Some i \<Rightarrow> i),
        ffmpegState := Error ''Failed to load FFmpeg. Please refresh and try again.'',
        trace := trace s @
          (case ffmpegRef s of None \<Rightarrow> [FFmpeg_new] | Some i \<Rightarrow> []) @
          [SetFFmpegState Loading,
           FFmpeg_load (CORE_BASE_URL @ ''/ffmpeg-core.js'') (CORE_BASE_URL @ ''/ffmpeg-core.wasm'')
             (CORE_BASE_URL @ ''/ffmpeg-core.worker.js''),
           ConsoleError e,
           SetFFmpegState (Error ''Failed to load FFmpeg. Please refresh and try again.'')]\<rparr>)"
  using assms
  by (auto simp: load_def load_begin_def load_settle_def prim_defs ref_loaded_def
      Let_def split: option.splits)

lemma unloaded_instance: "\<not> loaded i \<Longrightarrow> i\<lparr>loaded := False\<rparr> = i"
  by (cases i) simp

lemma try_calls_distinct:
  "distinct
     [FetchFile f, WriteFile (inputName oc) b, Exec args, ReadFile (outputName oc),
      DeleteFile (inputName oc), DeleteFile (outputName oc)]"
  by (simp add: names_differ)

lemma generateVideo_not_idle:
  assumes img: "imageFile c \<noteq> None" and fail: "state (generateVideo c oc s) \<noteq> Idle"
  shows "\<exists>calls report e. new_events s (generateVideo c oc s) = calls @ report
     \<and> calls \<noteq> [] \<and> library_call (last calls)
     \<and> (\<forall>x\<in>set calls. \<not> reports x)
     \<and> distinct (filter library_call calls)
     \<and> (report =
          [ConsoleError e,
           SetState (Error ''Something went wrong while generating the video. Please try again.'')]
        \<or> \<not> ref_loaded s \<and> is_library_load (last calls) \<and> report =
          [ConsoleError e,
           SetFFmpegState (Error ''Failed to load FFmpeg. Please refresh and try again.''),
           ConsoleError e,
           SetState (Error ''Something went wrong while generating the video. Please try again.'')])
     \<and> state (generateVideo c oc s) =
          Error ''Something went wrong while generating the video. Please try again.''
     \<and> videoUrl (generateVideo c oc s) = None
     \<and> generateVideo c oc s =
          s\<lparr>state := Error ''Something went wrong while generating the video. Please try again.'',
            videoUrl := None,
            objectURLs := (case videoUrl c of None \<Rightarrow> objectURLs s
                           | Some v \<Rightarrow> (objectURLs s)(v := None)),
            ffmpegRef :=
              (if ref_loaded s then ffmpegRef s
               else Some ((case ffmpegRef s of None \<Rightarrow> \<lparr>loaded = False\<rparr> | Some i \<Rightarrow> i)
                            \<lparr>loaded := (load_result oc = None)\<rparr>)),
            ffmpegState :=
              (if ref_loaded s then ffmpegState s
               else if load_result oc = None then Idle
               else Error ''Failed to load FFmpeg. Please refresh and try again.''),
            trace := trace s @ calls @ report\<rparr>"
proof -
  from img obtain f where Some: "imageFile c = Some f" by blast
  let ?load = "FFmpeg_load (CORE_BASE_URL @ ''/ffmpeg-core.js'')
      (CORE_BASE_URL @ ''/ffmpeg-core.wasm'') (CORE_BASE_URL @ ''/ffmpeg-core.worker.js'')"
  from begin_facts [OF Some] obtain inst s1 pre where
    b: "generateVideo_begin c s =
       (Some \<lparr>run_image = f, run_duration = duration c, run_fps = fps c, run_instance = inst\<rparr>, s1)"
    and i: "inst = (case ffmpegRef s of None \<Rightarrow> \<lparr>loaded = False\<rparr> | Some i \<Rightarrow> i)"
    and s1: "s1 = s\<lparr>state := Processing, videoUrl := None,
           objectURLs := (case videoUrl c of None \<Rightarrow> objectURLs s
                          | Some v \<Rightarrow> (objectURLs s)(v := None)),
           ffmpegRef := Some inst,
           ffmpegState := (if loaded inst then ffmpegState s else Loading),
           trace := trace s @ SetState Processing # pre\<rparr>"
    and t: "trace s1 = trace s @ SetState Processing # pre"
    and p: "\<forall>x\<in>set pre. \<not> reports x \<and> \<not> transcoder_call x \<and> \<not> creates_url x"
    and lc: "filter library_call pre = (if loaded inst then [] else [?load])"
    and last: "\<not> loaded inst \<longrightarrow> pre \<noteq> [] \<and> library_call (last pre)"
    and rl: "loaded inst = ref_loaded s"
    and v: "videoUrl s1 = None"
    by blast
  let ?r = "\<lparr>run_image = f, run_duration = duration c, run_fps = fps c, run_instance = inst\<rparr>"
  let ?C = "[FetchFile f, WriteFile (inputName oc) (fbytes f),
      Exec (exec_args (inputName oc) (outputName oc) (duration c) (fps c)),
      ReadFile (outputName oc), DeleteFile (inputName oc), DeleteFile (outputName oc)]"
  let ?M = "''Something went wrong while generating the video. Please try again.''"
  let ?L = "''Failed to load FFmpeg. Please refresh and try again.''"
  have g: "generateVideo c oc s = generateVideo_resume oc ?r s1"
    by (rule generateVideo_with_image [OF b])
  have ri: "run_instance ?r = inst" "run_image ?r = f" "run_duration ?r = duration c"
    "run_fps ?r = fps c"
    by simp_all
  from resume_not_idle [of oc ?r s1, unfolded ri] fail [unfolded g] obtain e n where
    n: "0 < n" "n \<le> 6"
    and tr: "trace (generateVideo_resume oc ?r s1) =
         trace s1 @
         (if \<not> loaded inst \<and> load_result oc \<noteq> None
          then [ConsoleError e, SetFFmpegState (Error ?L)]
          else (if loaded inst then [] else [SetFFmpegState Idle]) @ take n ?C) @
         [ConsoleError e, SetState (Error ?M)]"
    and st: "state (generateVideo_resume oc ?r s1) = Error ?M"
    and vr: "videoUrl (generateVideo_resume oc ?r s1) = videoUrl s1"
    and pg: "generateVideo_resume oc ?r s1 =
         s1\<lparr>state := Error ?M,
           ffmpegRef :=
             (if \<not> loaded inst \<and> load_result oc = None
              then Some (inst\<lparr>loaded := True\<rparr>) else ffmpegRef s1),
           ffmpegState :=
             (if loaded inst then ffmpegState s1
              else if load_result oc = None then Idle else Error ?L),
           trace := trace (generateVideo_resume oc ?r s1)\<rparr>"
    by blast
  have held: "ref_loaded s \<Longrightarrow> ffmpegRef s = Some inst"
    using i by (auto simp: ref_loaded_def split: option.splits)
  have sp: "\<not> reports (SetState Processing)" "\<not> library_call (SetState Processing)"
    "\<not> reports (SetFFmpegState Idle)" "\<not> library_call (SetFFmpegState Idle)"
    by (simp_all add: reports_def sets_error_def library_call_def)
  have C: "\<forall>x\<in>set ?C. library_call x \<and> \<not> reports x \<and> \<not> is_library_load x"
    by (simp add: library_call_def reports_def sets_error_def is_library_load_def)
  have Cn: "\<forall>x\<in>set (take n ?C). library_call x \<and> \<not> reports x \<and> \<not> is_library_load x"
    using C by (meson in_set_takeD)
  have dist: "distinct (take n ?C)"
    using try_calls_distinct by (rule distinct_take)
  have ne: "take n ?C \<noteq> []"
    using n by simp
  have fC: "filter library_call (take n ?C) = take n ?C"
    using Cn by (simp add: filter_id_conv)
  show ?thesis
  proof (cases "\<not> loaded inst \<and> load_result oc \<noteq> None")
    case True
    let ?calls = "SetState Processing # pre"
    let ?report = "[ConsoleError e, SetFFmpegState (Error ?L), ConsoleError e, SetState (Error ?M)]"
    have ev: "new_events s (generateVideo c oc s) = ?calls @ ?report"
      using g t tr True by (simp add: new_events_def)
    have lp: "last pre \<in> set (filter library_call pre)"
      using last True by simp
    then have ll: "is_library_load (last ?calls)"
      using lc True last by (simp add: is_library_load_def)
    show ?thesis
    proof (intro exI conjI)
      show "new_events s (generateVideo c oc s) = ?calls @ ?report" by (rule ev)
      show "?calls \<noteq> []" by simp
      show "library_call (last ?calls)" using last True by simp
      show "\<forall>x\<in>set ?calls. \<not> reports x" using p sp by simp
      show "distinct (filter library_call ?calls)" using lc sp by simp
      show "?report = [ConsoleError e, SetState (Error ?M)]
         \<or> \<not> ref_loaded s \<and> is_library_load (last ?calls) \<and> ?report =
          [ConsoleError e, SetFFmpegState (Error ?L), ConsoleError e, SetState (Error ?M)]"
        using ll True rl by simp
      show "state (generateVideo c oc s) = Error ?M" using st g by simp
      show "videoUrl (generateVideo c oc s) = None" using vr v g by simp
      show "generateVideo c oc s =
          s\<lparr>state := Error ?M, videoUrl := None,
            objectURLs := (case videoUrl c of None \<Rightarrow> objectURLs s
                           | Some v \<Rightarrow> (objectURLs s)(v := None)),
            ffmpegRef :=
              (if ref_loaded s then ffmpegRef s
               else Some ((case ffmpegRef s of None \<Rightarrow> \<lparr>loaded = False\<rparr> | Some i \<Rightarrow> i)
                            \<lparr>loaded := (load_result oc = None)\<rparr>)),
            ffmpegState :=
              (if ref_loaded s then ffmpegState s
               else if load_result oc = None then Idle else Error ?L),
            trace := trace s @ ?calls @ ?report\<rparr>"
        using True rl
        by (subst g, subst pg, subst tr, simp add: s1 i [symmetric] unloaded_instance)
    qed
  next
    case False
    let ?mid = "if loaded inst then [] else [SetFFmpegState Idle]"
    let ?calls = "SetState Processing # pre @ ?mid @ take n ?C"
    let ?report = "[ConsoleError e, SetState (Error ?M)]"
    have ev: "new_events s (generateVideo c oc s) = ?calls @ ?report"
      using g t tr False by (simp add: new_events_def)
    have la: "last ?calls = last (take n ?C)"
      using ne by simp
    have "last (take n ?C) \<in> set (take n ?C)"
      using ne by (rule last_in_set)
    with Cn la have ll: "library_call (last ?calls)"
      by metis
    have "?load \<notin> set (take n ?C)"
      using Cn by (auto simp: is_library_load_def)
    then have di: "distinct (filter library_call ?calls)"
      using lc sp dist fC by simp
    show ?thesis
    proof (intro exI conjI)
      show "new_events s (generateVideo c oc s) = ?calls @ ?report" by (rule ev)
      show "?calls \<noteq> []" by simp
      show "library_call (last ?calls)" by (rule ll)
      show "\<forall>x\<in>set ?calls. \<not> reports x" using p sp Cn by auto
      show "distinct (filter library_call ?calls)" by (rule di)
      show "?report = [ConsoleError e, SetState (Error ?M)]
         \<or> \<not> ref_loaded s \<and> is_library_load (last ?calls) \<and> ?report =
          [ConsoleError e, SetFFmpegState (Error ?L), ConsoleError e, SetState (Error ?M)]"
        by simp
      show "state (generateVideo c oc s) = Error ?M" using st g by simp
      show "videoUrl (generateVideo c oc s) = None" using vr v g by simp
      show "generateVideo c oc s =
          s\<lparr>state := Error ?M, videoUrl := None,
            objectURLs := (case videoUrl c of None \<Rightarrow> objectURLs s
                           | Some v \<Rightarrow> (objectURLs s)(v := None)),
            ffmpegRef :=
              (if ref_loaded s then ffmpegRef s
               else Some ((case ffmpegRef s of None \<Rightarrow> \<lparr>loaded = False\<rparr> | Some i \<Rightarrow> i)
                            \<lparr>loaded := (load_result oc = None)\<rparr>)),
            ffmpegState :=
              (if ref_loaded s then ffmpegState s
               else if load_result oc = None then Idle else Error ?L),
            trace := trace s @ ?calls @ ?report\<rparr>"
        using False rl held
        by (subst g, subst pg, subst tr, cases "loaded inst")
           (simp_all add: s1 i [symmetric])
    qed
  qed
qed

text \<open>
  C3. A failure is only reported. When the library's load rejects, \<open>load\<close> has
  called it once, logs the error, sets the one message "Failed to load FFmpeg.
  Please refresh and try again." in the hook's state and rethrows; the page it
  leaves differs from the one it found in the instance held by the ref (still
  unloaded), that message and the trace, and in nothing else. When a call of
  \<open>generateVideo\<close> with an image fails, its events are the calls it made up to the
  rejected library call, none of them made twice, followed only by the report:
  \<open>console.error\<close> and the one message "Something went wrong while generating the
  video. Please try again." in the component's state (after \<open>load\<close>'s own report
  when the rejected call was the library's load, which can only be if the module
  was not loaded). The page it leaves is the page it found with that message as
  the status, the video reset (the URL of the closure revoked, not restored), the
  module's ref and state as \<open>load\<close> left them, and the trace extended by those
  events: every other cell is as it was.
\<close>

theorem failures_only_report:
  "(\<not> ref_loaded s \<longrightarrow>
      load (Some e) s =
        (Inl e,
         s\<lparr>ffmpegRef := Some (case ffmpegRef s of None \<Rightarrow> \<lparr>loaded = False\<rparr> | Some i \<Rightarrow> i),
           ffmpegState := Error ''Failed to load FFmpeg. Please refresh and try again.'',
           trace := trace s @
             (case ffmpegRef s of None \<Rightarrow> [FFmpeg_new] | Some i \<Rightarrow> []) @
             [SetFFmpegState Loading,
              FFmpeg_load (CORE_BASE_URL @ ''/ffmpeg-core.js'') (CORE_BASE_URL @ ''/ffmpeg-core.wasm'')
                (CORE_BASE_URL @ ''/ffmpeg-core.worker.js''),
              ConsoleError e,
              SetFFmpegState (Error ''Failed to load FFmpeg. Please refresh and try again.'')]\<rparr>))
   \<and> (imageFile c \<noteq> None \<and> state (generateVideo c oc s) \<noteq> Idle \<longrightarrow>
      (\<exists>calls report x. new_events s (generateVideo c oc s) = calls @ report
         \<and> calls \<noteq> [] \<and> library_call (last calls)
         \<and> (\<forall>a\<in>set calls. \<not> reports a)
         \<and> distinct (filter library_call calls)
         \<and> (report =
              [ConsoleError x,
               SetState (Error ''Something went wrong while generating the video. Please try again.'')]
            \<or> \<not> ref_loaded s \<and> is_library_load (last calls) \<and> report =
              [ConsoleError x,
               SetFFmpegState (Error ''Failed to load FFmpeg. Please refresh and try again.''),
               ConsoleError x,
               SetState (Error ''Something went wrong while generating the video. Please try again.'')])
         \<and> state (generateVideo c oc s) =
              Error ''Something went wrong while generating the video. Please try again.''
         \<and> videoUrl (generateVideo c oc s) = None
         \<and> generateVideo c oc s =
              s\<lparr>state := Error ''Something went wrong while generating the video. Please try again.'',
                videoUrl := None,
                objectURLs := (case videoUrl c of None \<Rightarrow> objectURLs s
                               | Some v \<Rightarrow> (objectURLs s)(v := None)),
                ffmpegRef :=
                  (if ref_loaded s then ffmpegRef s
                   else Some ((case ffmpegRef s of None \<Rightarrow> \<lparr>loaded = False\<rparr> | Some i \<Rightarrow> i)
                                \<lparr>loaded := (load_result oc = None)\<rparr>)),
                ffmpegState :=
                  (if ref_loaded s then ffmpegState s
                   else if load_result oc = None then Idle
                   else Error ''Failed to load FFmpeg. Please refresh and try again.''),
                trace := trace s @ calls @ report\<rparr>))"
  using load_rejected [of s e] generateVideo_not_idle [of c oc s] by blast

theorem failures_only_report_witness:
  "\<not> ref_loaded initial
   \<and> load (Some (Exn ''network'')) initial =
       (Inl (Exn ''network''),
        initial\<lparr>ffmpegRef := Some \<lparr>loaded = False\<rparr>,
          ffmpegState := Error ''Failed to load FFmpeg. Please refresh and try again.'',
          trace :=
            [FFmpeg_new, SetFFmpegState Loading,
             FFmpeg_load (CORE_BASE_URL @ ''/ffmpeg-core.js'') (CORE_BASE_URL @ ''/ffmpeg-core.wasm'')
               (CORE_BASE_URL @ ''/ffmpeg-core.worker.js''),
             ConsoleError (Exn ''network''),
             SetFFmpegState (Error ''Failed to load FFmpeg. Please refresh and try again.'')]\<rparr>)
   \<and> imageFile with_photo \<noteq> None
   \<and> state (generateVideo with_photo exec_rejects with_photo) \<noteq> Idle
   \<and> generateVideo with_photo exec_rejects with_photo =
       with_photo\<lparr>state := Error ''Something went wrong while generating the video. Please try again.'',
         trace := trace with_photo @
           [SetState Processing, FetchFile photo,
            WriteFile (inputName exec_rejects) (fbytes photo),
            Exec (exec_args (inputName exec_rejects) (outputName exec_rejects) (Whole 5) (Whole 30)),
            ConsoleError (Exn ''exec failed''),
            SetState (Error ''Something went wrong while generating the video. Please try again.'')]\<rparr>
   \<and> generateVideo (initial\<lparr>imageFile := Some photo\<rparr>)
         (all_resolve\<lparr>load_result := Some (Exn ''network'')\<rparr>) initial =
       initial\<lparr>state := Error ''Something went wrong while generating the video. Please try again.'',
         ffmpegRef := Some \<lparr>loaded = False\<rparr>,
         ffmpegState := Error ''Failed to load FFmpeg. Please refresh and try again.'',
         trace :=
           [SetState Processing, FFmpeg_new, SetFFmpegState Loading,
            FFmpeg_load (CORE_BASE_URL @ ''/ffmpeg-core.js'') (CORE_BASE_URL @ ''/ffmpeg-core.wasm'')
              (CORE_BASE_URL @ ''/ffmpeg-core.worker.js''),
            ConsoleError (Exn ''network''),
            SetFFmpegState (Error ''Failed to load FFmpeg. Please refresh and try again.''),
            ConsoleError (Exn ''network''),
            SetState (Error ''Something went wrong while generating the video. Please try again.'')]\<rparr>"
proof -
  let ?M = "''Something went wrong while generating the video. Please try again.''"
  have a: "\<not> ref_loaded initial" "ffmpegRef initial = None" "trace initial = []"
    "videoUrl initial = None" "imageFile (initial\<lparr>imageFile := Some photo\<rparr>) \<noteq> None"
    by (simp_all add: initial_def ref_loaded_def)
  have b: "imageFile with_photo \<noteq> None" "videoUrl with_photo = None" "ref_loaded with_photo"
    by (simp_all add: with_photo_cells)
  have c: "state (generateVideo with_photo exec_rejects with_photo) \<noteq> Idle"
    by (simp add: gv_defs sample_defs prim_defs Let_def)
  have d: "state (generateVideo (initial\<lparr>imageFile := Some photo\<rparr>)
         (all_resolve\<lparr>load_result := Some (Exn ''network'')\<rparr>) initial) \<noteq> Idle"
    by (simp add: gv_defs sample_defs prim_defs Let_def)
  have ev: "new_events with_photo (generateVideo with_photo exec_rejects with_photo) =
       [SetState Processing, FetchFile photo,
        WriteFile (inputName exec_rejects) (fbytes photo),
        Exec (exec_args (inputName exec_rejects) (outputName exec_rejects) (Whole 5) (Whole 30)),
        ConsoleError (Exn ''exec failed''), SetState (Error ?M)]"
    by (simp add: gv_defs sample_defs prim_defs new_events_def Let_def)
  have ev': "new_events initial (generateVideo (initial\<lparr>imageFile := Some photo\<rparr>)
         (all_resolve\<lparr>load_result := Some (Exn ''network'')\<rparr>) initial) =
       [SetState Processing, FFmpeg_new, SetFFmpegState Loading,
        FFmpeg_load (CORE_BASE_URL @ ''/ffmpeg-core.js'') (CORE_BASE_URL @ ''/ffmpeg-core.wasm'')
          (CORE_BASE_URL @ ''/ffmpeg-core.worker.js''),
        ConsoleError (Exn ''network''),
        SetFFmpegState (Error ''Failed to load FFmpeg. Please refresh and try again.''),
        ConsoleError (Exn ''network''), SetState (Error ?M)]"
    by (simp add: gv_defs sample_defs prim_defs new_events_def Let_def)
  note th = failures_only_report [of initial "Exn ''network''" with_photo exec_rejects]
    failures_only_report [of with_photo "Exn ''network''" with_photo exec_rejects]
    failures_only_report [of initial "Exn ''network''" "initial\<lparr>imageFile := Some photo\<rparr>"
      "all_resolve\<lparr>load_result := Some (Exn ''network'')\<rparr>"]
  from th(1) a have l: "load (Some (Exn ''network'')) initial =
       (Inl (Exn ''network''),
        initial\<lparr>ffmpegRef := Some \<lparr>loaded = False\<rparr>,
          ffmpegState := Error ''Failed to load FFmpeg. Please refresh and try again.'',
          trace :=
            [FFmpeg_new, SetFFmpegState Loading,
             FFmpeg_load (CORE_BASE_URL @ ''/ffmpeg-core.js'') (CORE_BASE_URL @ ''/ffmpeg-core.wasm'')
               (CORE_BASE_URL @ ''/ffmpeg-core.worker.js''),
             ConsoleError (Exn ''network''),
             SetFFmpegState (Error ''Failed to load FFmpeg. Please refresh and try again.'')]\<rparr>)"
    by simp
  from th(2) b(1) c obtain calls report where
    "new_events with_photo (generateVideo with_photo exec_rejects with_photo) = calls @ report"
    "generateVideo with_photo exec_rejects with_photo =
       with_photo\<lparr>state := Error ?M, videoUrl := None,
         objectURLs := (case videoUrl with_photo of None \<Rightarrow> objectURLs with_photo
                        | Some v \<Rightarrow> (objectURLs with_photo)(v := None)),
         ffmpegRef :=
           (if ref_loaded with_photo then ffmpegRef with_photo
            else Some ((case ffmpegRef with_photo of None \<Rightarrow> \<lparr>loaded = False\<rparr> | Some i \<Rightarrow> i)
                         \<lparr>loaded := (load_result exec_rejects = None)\<rparr>)),
         ffmpegState :=
           (if ref_loaded with_photo then ffmpegState with_photo
            else if load_result exec_rejects = None then Idle
            else Error ''Failed to load FFmpeg. Please refresh and try again.''),
         trace := trace with_photo @ calls @ report\<rparr>"
    by blast
  then have g: "generateVideo with_photo exec_rejects with_photo =
       with_photo\<lparr>state := Error ?M,
         trace := trace with_photo @
           [SetState Processing, FetchFile photo,
            WriteFile (inputName exec_rejects) (fbytes photo),
            Exec (exec_args (inputName exec_rejects) (outputName exec_rejects) (Whole 5) (Whole 30)),
            ConsoleError (Exn ''exec failed''), SetState (Error ?M)]\<rparr>"
    using b ev by (cases with_photo) simp
  from th(3) a(5) d obtain calls' report' where
    "new_events initial (generateVideo (initial\<lparr>imageFile := Some photo\<rparr>)
         (all_resolve\<lparr>load_result := Some (Exn ''network'')\<rparr>) initial) = calls' @ report'"
    "generateVideo (initial\<lparr>imageFile := Some photo\<rparr>)
         (all_resolve\<lparr>load_result := Some (Exn ''network'')\<rparr>) initial =
       initial\<lparr>state := Error ?M, videoUrl := None,
         objectURLs := (case videoUrl (initial\<lparr>imageFile := Some photo\<rparr>) of
                          None \<Rightarrow> objectURLs initial
                        | Some v \<Rightarrow> (objectURLs initial)(v := None)),
         ffmpegRef :=
           (if ref_loaded initial then ffmpegRef initial
            else Some ((case ffmpegRef initial of None \<Rightarrow> \<lparr>loaded = False\<rparr> | Some i \<Rightarrow> i)
                         \<lparr>loaded := (load_result (all_resolve\<lparr>load_result := Some (Exn ''network'')\<rparr>) = None)\<rparr>)),
         ffmpegState :=
           (if ref_loaded initial then ffmpegState initial
            else if load_result (all_resolve\<lparr>load_result := Some (Exn ''network'')\<rparr>) = None then Idle
            else Error ''Failed to load FFmpeg. Please refresh and try again.''),
         trace := trace initial @ calls' @ report'\<rparr>"
    by blast
  then have h: "generateVideo (initial\<lparr>imageFile := Some photo\<rparr>)
         (all_resolve\<lparr>load_result := Some (Exn ''network'')\<rparr>) initial =
       initial\<lparr>state := Error ?M,
         ffmpegRef := Some \<lparr>loaded = False\<rparr>,
         ffmpegState := Error ''Failed to load FFmpeg. Please refresh and try again.'',
         trace :=
           [SetState Processing, FFmpeg_new, SetFFmpegState Loading,
            FFmpeg_load (CORE_BASE_URL @ ''/ffmpeg-core.js'') (CORE_BASE_URL @ ''/ffmpeg-core.wasm'')
              (CORE_BASE_URL @ ''/ffmpeg-core.worker.js''),
            ConsoleError (Exn ''network''),
            SetFFmpegState (Error ''Failed to load FFmpeg. Please refresh and try again.''),
            ConsoleError (Exn ''network''), SetState (Error ?M)]\<rparr>"
    using a ev' by (simp add: initial_def)
  show ?thesis
    using a(1) b(1) c l g h by simp
qed

section \<open>Loading the module\<close>

lemma load_when_loaded:
  assumes "ref_loaded s"
  shows "\<exists>i. ffmpegRef s = Some i \<and> load r s = (Inr i, s)"
  using assms
  by (auto simp: load_def load_begin_def ref_loaded_def split: option.splits)

lemma load_library_loads:
  "library_loads (new_events s (snd (load r s))) = (if ref_loaded s then 0 else 1)"
  by (auto simp: load_def load_begin_def load_settle_def prim_defs ref_loaded_def new_events_def
      library_loads_def is_library_load_def Let_def split: option.splits)

lemma load_resolved:
  assumes "\<not> ref_loaded s"
  shows "ref_loaded (snd (load None s))"
  using assms
  by (auto simp: load_def load_begin_def load_settle_def prim_defs ref_loaded_def Let_def
      split: option.splits)

lemma generateVideo_calls_distinct:
  "distinct (filter library_call (new_events s (generateVideo c oc s)))"
proof (cases "imageFile c")
  case None
  then show ?thesis
    by (simp add: generateVideo_def generateVideo_begin_def prim_defs new_events_def
        library_call_def)
next
  case (Some f)
  show ?thesis
  proof (cases "state (generateVideo c oc s) = Idle")
    case False
    with Some generateVideo_not_idle [of c oc s] obtain calls report e where
      ev: "new_events s (generateVideo c oc s) = calls @ report"
      and d: "distinct (filter library_call calls)"
      and r: "report =
          [ConsoleError e,
           SetState (Error ''Something went wrong while generating the video. Please try again.'')]
        \<or> report =
          [ConsoleError e,
           SetFFmpegState (Error ''Failed to load FFmpeg. Please refresh and try again.''),
           ConsoleError e,
           SetState (Error ''Something went wrong while generating the video. Please try again.'')]"
      by auto
    from r have "filter library_call report = []"
      by (auto simp: library_call_def)
    with ev d show ?thesis by simp
  next
    case True
    from begin_facts [OF Some] obtain inst s1 pre where
      b: "generateVideo_begin c s =
         (Some \<lparr>run_image = f, run_duration = duration c, run_fps = fps c, run_instance = inst\<rparr>, s1)"
      and t: "trace s1 = trace s @ SetState Processing # pre"
      and lc: "filter library_call pre =
          (if loaded inst then []
           else [FFmpeg_load (CORE_BASE_URL @ ''/ffmpeg-core.js'')
                   (CORE_BASE_URL @ ''/ffmpeg-core.wasm'')
                   (CORE_BASE_URL @ ''/ffmpeg-core.worker.js'')])"
      by blast
    let ?r = "\<lparr>run_image = f, run_duration = duration c, run_fps = fps c, run_instance = inst\<rparr>"
    have g: "generateVideo c oc s = generateVideo_resume oc ?r s1"
      by (rule generateVideo_with_image [OF b])
    from resume_idle [of oc ?r s1] True g obtain d where
      "trace (generateVideo_resume oc ?r s1) =
         trace s1 @ (if loaded inst then [] else [SetFFmpegState Idle]) @
         [FetchFile f, WriteFile (inputName oc) (fbytes f),
          Exec (exec_args (inputName oc) (outputName oc) (duration c) (fps c)),
          ReadFile (outputName oc), DeleteFile (inputName oc), DeleteFile (outputName oc),
          CreateObjectURL (OfBlob (binaryData d) ''video/mp4'') (nextURL s1), SetState Idle]"
      by auto
    with g t lc show ?thesis
      by (simp add: new_events_def library_call_def names_differ)
  qed
qed

text \<open>
  C4, as the code has it. Each invocation of \<open>load\<close> calls the library's load at
  most once, and each call of \<open>generateVideo\<close> makes each of its library calls at
  most once: there is no retry and no batching. But \<open>load\<close> does cache: it keeps
  the instance in \<open>ffmpegRef\<close>, and once that instance is loaded it returns it,
  leaving the page as it is, without calling the library.
\<close>

theorem load_once_then_cached:
  "library_loads (new_events s (snd (load r s))) = (if ref_loaded s then 0 else 1)
   \<and> (ref_loaded s \<longrightarrow> (\<exists>i. ffmpegRef s = Some i \<and> load r s = (Inr i, s)))
   \<and> (\<not> ref_loaded s \<longrightarrow> ref_loaded (snd (load None s)))
   \<and> distinct (filter library_call (new_events s (generateVideo c oc s)))"
  using load_library_loads [of s r] load_when_loaded [of s r] load_resolved [of s]
    generateVideo_calls_distinct [of s c oc]
  by blast

theorem load_once_then_cached_witness:
  "\<not> ref_loaded initial \<and> ref_loaded loaded_page
   \<and> library_loads (new_events initial (snd (load None initial))) = 1
   \<and> library_loads (new_events loaded_page (snd (load None loaded_page))) = 0
   \<and> load None loaded_page = (Inr \<lparr>loaded = True\<rparr>, loaded_page)"
proof -
  have a: "\<not> ref_loaded initial"
    by (simp add: initial_def ref_loaded_def)
  have b: "ffmpegRef loaded_page = Some \<lparr>loaded = True\<rparr>"
    by (simp add: sample_defs prim_defs Let_def)
  note th = load_once_then_cached [of initial None initial all_resolve]
    load_once_then_cached [of loaded_page None loaded_page all_resolve]
  from th(1) a have c: "ref_loaded loaded_page"
    "library_loads (new_events initial (snd (load None initial))) = 1"
    by (simp_all add: loaded_page_def)
  from th(2) c(1) b have d: "library_loads (new_events loaded_page (snd (load None loaded_page))) = 0"
    "load None loaded_page = (Inr \<lparr>loaded = True\<rparr>, loaded_page)"
    by auto
  show ?thesis
    using a c d by simp
qed

text \<open>
  C4 as the specification words it does not hold: the first invocation of
  \<open>load\<close> calls the library, the second finds the instance loaded and returns it
  without any call.
\<close>

theorem load_not_always_a_library_call:
  "library_loads (new_events initial (snd (load None initial))) = 1
   \<and> new_events (snd (load None initial)) (snd (load None (snd (load None initial)))) = []
   \<and> fst (load None (snd (load None initial))) = Inr \<lparr>loaded = True\<rparr>"
  by (simp add: load_def load_begin_def load_settle_def prim_defs initial_def new_events_def
      library_loads_def is_library_load_def Let_def)

section \<open>Object URLs along a trace\<close>

lemma live_urls_simps [simp]:
  "live_urls l [] = l"
  "live_urls l (x # evs) = live_urls (url_step x l) evs"
  "live_urls l (xs @ ys) = live_urls (live_urls l xs) ys"
  by (simp_all add: live_urls_def)

lemma url_step_other: "\<not> url_event x \<Longrightarrow> url_step x l = l"
  by (cases x) (simp_all add: url_event_def)

lemma live_urls_other: "\<forall>x\<in>set evs. \<not> url_event x \<Longrightarrow> live_urls l evs = l"
  by (induction evs arbitrary: l) (simp_all add: url_step_other)

lemma image_urls_simps [simp]:
  "image_urls [] = []"
  "image_urls (l @ [(u, OfFile f)]) = image_urls l @ [u]"
  "image_urls (l @ [(u, OfBlob b m)]) = image_urls l"
  "image_urls (filter (\<lambda>p. fst p \<noteq> u) l) = filter (\<lambda>x. x \<noteq> u) (image_urls l)"
  by (simp_all add: image_urls_def for_image_def filter_map comp_def conj_commute)

lemma video_urls_simps [simp]:
  "video_urls [] = []"
  "video_urls (l @ [(u, OfFile f)]) = video_urls l"
  "video_urls (l @ [(u, OfBlob b m)]) = video_urls l @ [u]"
  "video_urls (filter (\<lambda>p. fst p \<noteq> u) l) = filter (\<lambda>x. x \<noteq> u) (video_urls l)"
  by (simp_all add: video_urls_def for_image_def filter_map comp_def conj_commute)

lemma library_loads_simps [simp]:
  "library_loads [] = 0"
  "library_loads (xs @ ys) = library_loads xs + library_loads ys"
  "library_loads (x # xs) = (if is_library_load x then 1 else 0) + library_loads xs"
  by (simp_all add: library_loads_def)

lemma at_every_point_start: "at_every_point P l evs \<Longrightarrow> P l"
  by (cases evs) simp_all

lemma at_every_point_append:
  "at_every_point P l (xs @ ys) =
     (at_every_point P l xs \<and> at_every_point P (live_urls l xs) ys)"
  by (induction xs arbitrary: l) (auto dest: at_every_point_start)

lemma at_every_point_other:
  "\<forall>x\<in>set evs. \<not> url_event x \<Longrightarrow> at_every_point P l evs = P l"
  by (induction evs) (simp_all add: url_step_other)

text \<open>A render adds only the revocations of the cleanups and leaves every cell
  as it was set.\<close>

lemma rerender_cells [simp]:
  "imagePreview (rerender s0 s) = imagePreview s"
  "videoUrl (rerender s0 s) = videoUrl s"
  "nextURL (rerender s0 s) = nextURL s"
  "imageFile (rerender s0 s) = imageFile s"
  "state (rerender s0 s) = state s"
  "ffmpegState (rerender s0 s) = ffmpegState s"
  "ffmpegRef (rerender s0 s) = ffmpegRef s"
  "duration (rerender s0 s) = duration s"
  "fps (rerender s0 s) = fps s"
  by (simp_all add: rerender_def cleanup_def prim_defs split: option.splits)

lemma trace_rerender:
  "trace (rerender s0 s) =
     trace s @
     (case imagePreview s0 of None \<Rightarrow> []
      | Some u \<Rightarrow> if imagePreview s = Some u then [] else [RevokeObjectURL u]) @
     (case videoUrl s0 of None \<Rightarrow> []
      | Some u \<Rightarrow> if videoUrl s = Some u then [] else [RevokeObjectURL u])"
  by (simp add: rerender_def cleanup_def prim_defs split: option.splits)

lemma ref_loaded_rerender [simp]: "ref_loaded (rerender s0 s) = ref_loaded s"
  by (simp add: ref_loaded_def)

lemma library_loads_rerender [simp]:
  "library_loads (trace (rerender s0 s)) = library_loads (trace s)"
  by (simp add: trace_rerender is_library_load_def split: option.splits)

section \<open>Every reachable page is consistent\<close>

lemma consistent_mount: "consistent mount"
  by (simp add: consistent_def mount_def load_begin_def initial_def prim_defs
      is_library_load_def slider_value_def ref_loaded_def Let_def)

text \<open>A render keeps a consistent page consistent, whatever the handler before
  it did, as long as the handler loaded nothing and kept the duration and the
  ref.\<close>

lemma consistent_render:
  assumes "consistent a"
    and "\<forall>r\<in>set rs. loaded (run_instance r) \<and> slider_value (run_duration r)"
    and "library_loads (trace s) = 1" and "slider_value (duration s)"
  shows "consistent (render (a\<lparr>ui := s, runs := rs\<rparr>))"
  using assms by (simp add: consistent_def render_def)

lemma consistent_render_ui:
  assumes "consistent a" and "library_loads (trace s) = 1" and "slider_value (duration s)"
  shows "consistent (render (a\<lparr>ui := s\<rparr>))"
  using consistent_render [OF assms(1) _ assms(2,3), of "runs a"] assms(1)
  by (simp add: consistent_def)

lemma select_effect:
  "library_loads (trace (handleImageSelection c file s)) = library_loads (trace s)"
  "duration (handleImageSelection c file s) = duration s"
  by (auto simp: handleImageSelection_def prim_defs is_library_load_def Let_def
      split: option.splits)

lemma clear_effect:
  "library_loads (trace (setState Idle (resetVideo c s))) = library_loads (trace s)"
  "duration (setState Idle (resetVideo c s)) = duration s"
  by (auto simp: resetVideo_def prim_defs is_library_load_def split: option.splits)

lemma load_settle_effect:
  "library_loads (trace (snd (load_settle r inst s))) = library_loads (trace s)"
  "duration (snd (load_settle r inst s)) = duration s"
  "ref_loaded s \<Longrightarrow> ref_loaded (snd (load_settle r inst s))"
  by (auto simp: load_settle_def prim_defs is_library_load_def ref_loaded_def
      split: option.splits)

lemma consistent_load_settles:
  assumes "consistent a"
  shows "consistent (a\<lparr>ui := snd (load_settle r inst (ui a)), mount_load := None\<rparr>)"
  using assms by (simp add: consistent_def load_settle_effect)

text \<open>
  Generate can be clicked only when the last render saw the module loaded. It
  still is, so the call reaches its first \<open>await\<close> with the held, loaded
  instance and no library call.
\<close>

lemma begin_when_ready:
  assumes "ref_loaded s" and "imageFile c = Some f"
  shows "\<exists>i. loaded i \<and> generateVideo_begin c s =
     (Some \<lparr>run_image = f, run_duration = duration c, run_fps = fps c, run_instance = i\<rparr>,
      resetVideo c (setState Processing s))"
  using assms
  by (auto simp: ref_loaded_def generateVideo_begin_def load_begin_def resetVideo_def
      prim_defs Let_def split: option.splits)

lemma begin_without_image:
  assumes "imageFile c = None"
  shows "generateVideo_begin c s =
     (None, setState (Error ''Please choose an image before generating.'') s)"
  using assms by (simp add: generateVideo_begin_def)

lemma begin_effect:
  "library_loads (trace (resetVideo c (setState Processing s))) = library_loads (trace s)"
  "duration (resetVideo c (setState Processing s)) = duration s"
  "library_loads (trace (setState st s)) = library_loads (trace s)"
  "duration (setState st s) = duration s"
  by (auto simp: resetVideo_def prim_defs is_library_load_def split: option.splits)

lemma consistent_generate:
  assumes "consistent a"
  shows "consistent (step a GenerateClick)"
proof (cases "controls_disabled (shown a)")
  case True
  with assms show ?thesis by simp
next
  case False
  then have "ref_loaded (shown a)"
    by (simp add: controls_disabled_def ready_def)
  with assms have rl: "ref_loaded (ui a)"
    by (simp add: consistent_def)
  from assms have c: "library_loads (trace (ui a)) = 1" "slider_value (duration (ui a))"
    "slider_value (duration (shown a))"
    "\<forall>r\<in>set (runs a). loaded (run_instance r) \<and> slider_value (run_duration r)"
    by (simp_all add: consistent_def)
  show ?thesis
  proof (cases "imageFile (shown a)")
    case None
    with assms False c show ?thesis
      by (simp add: begin_without_image consistent_render_ui begin_effect)
  next
    case (Some f)
    from begin_when_ready [OF rl Some] obtain i where
      i: "loaded i" and b: "generateVideo_begin (shown a) (ui a) =
       (Some \<lparr>run_image = f, run_duration = duration (shown a), run_fps = fps (shown a),
               run_instance = i\<rparr>,
        resetVideo (shown a) (setState Processing (ui a)))"
      by blast
    have "\<forall>r\<in>set (runs a @
        [\<lparr>run_image = f, run_duration = duration (shown a), run_fps = fps (shown a),
          run_instance = i\<rparr>]). loaded (run_instance r) \<and> slider_value (run_duration r)"
      using c i by simp
    from consistent_render [OF assms this, of "resetVideo (shown a) (setState Processing (ui a))"]
      False b c show ?thesis
      by (simp add: begin_effect)
  qed
qed

text \<open>What the rest of a call with a loaded instance does: no library load, and
  neither the duration nor the ref is touched.\<close>

lemma resume_loaded_effect:
  assumes "loaded (run_instance r)"
  shows "library_loads (trace (generateVideo_resume oc r s)) = library_loads (trace s)"
proof (cases "state (generateVideo_resume oc r s) = Idle")
  case True
  from resume_idle [OF True] assms obtain d where
    "trace (generateVideo_resume oc r s) =
         trace s @
         [FetchFile (run_image r), WriteFile (inputName oc) (fbytes (run_image r)),
          Exec (exec_args (inputName oc) (outputName oc) (run_duration r) (run_fps r)),
          ReadFile (outputName oc), DeleteFile (inputName oc), DeleteFile (outputName oc),
          CreateObjectURL (OfBlob (binaryData d) ''video/mp4'') (nextURL s), SetState Idle]"
    by auto
  then show ?thesis
    by (simp add: is_library_load_def)
next
  case False
  let ?C = "[FetchFile (run_image r), WriteFile (inputName oc) (fbytes (run_image r)),
          Exec (exec_args (inputName oc) (outputName oc) (run_duration r) (run_fps r)),
          ReadFile (outputName oc), DeleteFile (inputName oc), DeleteFile (outputName oc)]"
  let ?M = "''Something went wrong while generating the video. Please try again.''"
  from resume_not_idle [OF False] assms obtain e n where
    tr: "trace (generateVideo_resume oc r s) =
         trace s @ take n ?C @ [ConsoleError e, SetState (Error ?M)]"
    by fastforce
  have "\<forall>x\<in>set ?C. \<not> is_library_load x"
    by (simp add: is_library_load_def)
  then have "\<forall>x\<in>set (take n ?C). \<not> is_library_load x"
    by (meson in_set_takeD)
  then have "filter is_library_load (take n ?C) = []"
    by (simp add: filter_empty_conv)
  then have "library_loads (take n ?C @ [ConsoleError e, SetState (Error ?M)]) = 0"
    by (simp add: library_loads_def is_library_load_def)
  with tr show ?thesis by simp
qed

lemma resume_duration: "duration (generateVideo_resume oc r s) = duration s"
  by (auto simp: generateVideo_resume_def generateVideo_try_def generateVideo_catch_def
      await_def expose_def load_settle_def prim_defs
      split: option.splits sum.splits prod.splits)

lemma resume_ref:
  "loaded (run_instance r) \<Longrightarrow> ffmpegRef (generateVideo_resume oc r s) = ffmpegRef s"
  by (auto simp: generateVideo_resume_def generateVideo_try_def generateVideo_catch_def
      await_def expose_def prim_defs
      split: option.splits sum.splits prod.splits)

lemma consistent_run_settles:
  assumes "consistent a" and "i < length (runs a)"
  shows "consistent (a\<lparr>ui := generateVideo_resume oc (runs a ! i) (ui a),
             runs := take i (runs a) @ drop (Suc i) (runs a)\<rparr>)"
proof -
  from assms have l: "loaded (run_instance (runs a ! i))"
    by (simp add: consistent_def)
  have rest: "\<forall>r\<in>set (take i (runs a) @ drop (Suc i) (runs a)).
      loaded (run_instance r) \<and> slider_value (run_duration r)"
    using assms(1) by (auto simp: consistent_def dest: in_set_takeD in_set_dropD)
  from assms(1) rest show ?thesis
    by (simp add: consistent_def resume_loaded_effect [OF l] resume_duration
        ref_loaded_def resume_ref [OF l])
qed

lemma consistent_step:
  assumes "consistent a"
  shows "consistent (step a act)"
proof -
  from assms have c: "library_loads (trace (ui a)) = 1" "slider_value (duration (ui a))"
    by (simp_all add: consistent_def)
  show ?thesis
  proof (cases act)
    case (LoadSettles r)
    with assms show ?thesis
      by (cases "mount_load a") (simp_all add: consistent_load_settles)
  next
    case (RunSettles i oc)
    with assms show ?thesis
      by (simp add: consistent_run_settles)
  next
    case Render
    with assms show ?thesis
      by (simp add: consistent_def render_def)
  next
    case (FileChange files)
    with assms c show ?thesis
      by (simp add: handleFileChange_def consistent_render_ui select_effect)
  next
    case (Drop files)
    with assms c show ?thesis
      by (simp add: handleDrop_def consistent_render_ui select_effect)
  next
    case (DurationChange v)
    with assms c show ?thesis
      by (simp add: consistent_render_ui)
  next
    case (FpsChange v)
    with assms c show ?thesis
      by (simp add: consistent_render_ui)
  next
    case GenerateClick
    with assms show ?thesis
      by (simp only: consistent_generate)
  next
    case ClearVideoClick
    with assms c show ?thesis
      by (simp add: consistent_render_ui clear_effect)
  qed
qed

lemma consistent_foldl:
  assumes "consistent a"
  shows "consistent (foldl step a acts)"
  using assms by (induction acts arbitrary: a) (simp_all add: consistent_step)

lemma consistent_after_actions: "consistent (after_actions acts)"
  unfolding after_actions_def by (rule consistent_foldl [OF consistent_mount])

section \<open>The filter pipeline\<close>

lemma reachable_duration:
  "(\<exists>n. duration (shown (after_actions acts)) = Whole n \<and> 2 \<le> n \<and> n \<le> 12)
   \<and> (\<exists>n. duration (ui (after_actions acts)) = Whole n \<and> 2 \<le> n \<and> n \<le> 12)"
  using consistent_after_actions [of acts]
  by (auto simp: consistent_def slider_value_def split: number.splits)

lemma fade_out_start_value:
  assumes "number_value d = Some x" and "1 / 2 \<le> x"
  shows "number_value (fade_out_start d) = Some (x - 1 / 2)"
  using assms
  by (cases d)
     (auto simp: fade_out_start_def Math_max_def number_ge_def number_value_def)


text \<open>
  C1. Whenever \<open>generateVideo\<close> calls \<open>exec\<close>, the argument list is the fixed
  pipeline: the image is looped (\<open>-loop 1\<close>), the filter fades in for 0.5 s from
  time 0 and fades out for 0.5 s, and the output is encoded with libx264 in yuv420p.
  Only the duration, the fps (those of the render that made the handler) and the
  two generated file names vary. For a duration of at least 0.5 s the fade-out
  starts 0.5 s before the end of the clip, and on every page the user can reach
  the duration, shown and current, is a whole number between 2 and 12.
\<close>

theorem exec_arguments_fixed_pipeline:
  assumes "Exec args \<in> set (new_events s (generateVideo c oc s))"
  shows "args =
     [''-loop'', ''1'', ''-i'', ''input'' @ nat_toString (now_input oc) @ ''.png'',
      ''-c:v'', ''libx264'', ''-t'', Number_toString (duration c), ''-vf'',
      ''fps='' @ Number_toString (fps c) @ '',fade=t=in:st=0:d=0.5,fade=t=out:st='' @
        Number_toString (Math_max (number_minus (duration c) (Half 0)) (Whole 0)) @
        '':d=0.5,format=yuv420p'',
      ''-pix_fmt'', ''yuv420p'', ''-movflags'', ''+faststart'',
      ''output'' @ nat_toString (now_output oc) @ ''.mp4'']
    \<and> (\<forall>d. number_value (duration c) = Some d \<and> 1 / 2 \<le> d \<longrightarrow>
          number_value (Math_max (number_minus (duration c) (Half 0)) (Whole 0)) =
            Some (d - 1 / 2))
    \<and> (\<exists>n. duration (shown (after_actions acts)) = Whole n \<and> 2 \<le> n \<and> n \<le> 12)
    \<and> (\<exists>n. duration (ui (after_actions acts)) = Whole n \<and> 2 \<le> n \<and> n \<le> 12)"
  using exec_of_generateVideo [OF assms] reachable_duration [of acts]
    fade_out_start_value [of "duration c"]
  by (simp add: exec_args_def fade_out_start_def inputName_def outputName_def)

theorem exec_arguments_fixed_pipeline_witness:
  "Exec [''-loop'', ''1'', ''-i'', ''input1700000000000.png'', ''-c:v'', ''libx264'',
         ''-t'', ''5'', ''-vf'',
         ''fps=30,fade=t=in:st=0:d=0.5,fade=t=out:st=4.5:d=0.5,format=yuv420p'',
         ''-pix_fmt'', ''yuv420p'', ''-movflags'', ''+faststart'',
         ''output1700000000002.mp4'']
     \<in> set (new_events with_photo (generateVideo with_photo all_resolve with_photo))
   \<and> number_value (duration with_photo) = Some 5 \<and> 1 / 2 \<le> (5 :: real)
   \<and> number_value (Math_max (number_minus (duration with_photo) (Half 0)) (Whole 0)) =
       Some (9 / 2)"
proof -
  let ?args = "[''-loop'', ''1'', ''-i'', ''input1700000000000.png'', ''-c:v'', ''libx264'',
         ''-t'', ''5'', ''-vf'',
         ''fps=30,fade=t=in:st=0:d=0.5,fade=t=out:st=4.5:d=0.5,format=yuv420p'',
         ''-pix_fmt'', ''yuv420p'', ''-movflags'', ''+faststart'',
         ''output1700000000002.mp4'']"
  have m: "Exec ?args \<in> set (new_events with_photo (generateVideo with_photo all_resolve with_photo))"
    by (simp add: with_photo_run)
  have d: "number_value (duration with_photo) = Some 5"
    by (simp add: with_photo_cells number_value_def)
  from exec_arguments_fixed_pipeline [OF m, of "[]"]
  have "\<forall>d. number_value (duration with_photo) = Some d \<and> 1 / 2 \<le> d \<longrightarrow>
      number_value (Math_max (number_minus (duration with_photo) (Half 0)) (Whole 0)) =
        Some (d - 1 / 2)"
    by blast
  with d have "number_value (Math_max (number_minus (duration with_photo) (Half 0)) (Whole 0)) =
       Some (5 - 1 / 2)"
    by simp
  with m d show ?thesis by simp
qed




section \<open>Guards of the handlers\<close>

text \<open>
  C8. Called while no image is selected (in the render that made the handler),
  \<open>generateVideo\<close> sets the error state
  with the message "Please choose an image before generating." and returns: that
  \<open>setState\<close> is its only effect. The video is not reset and no call reaches the
  library, so the video URL, the image preview, the duration and the fps are
  unchanged.
\<close>

theorem generateVideo_without_image:
  assumes "imageFile c = None"
  shows "state (generateVideo c oc s) = Error ''Please choose an image before generating.''
    \<and> new_events s (generateVideo c oc s) =
          [SetState (Error ''Please choose an image before generating.'')]
    \<and> generateVideo c oc s =
          s\<lparr>state := Error ''Please choose an image before generating.'',
            trace := trace s @ [SetState (Error ''Please choose an image before generating.'')]\<rparr>
    \<and> videoUrl (generateVideo c oc s) = videoUrl s
    \<and> imagePreview (generateVideo c oc s) = imagePreview s
    \<and> duration (generateVideo c oc s) = duration s
    \<and> fps (generateVideo c oc s) = fps s
    \<and> objectURLs (generateVideo c oc s) = objectURLs s"
  using assms
  by (simp add: generateVideo_def generateVideo_begin_def prim_defs new_events_def)

theorem generateVideo_without_image_witness:
  "imageFile loaded_page = None
   \<and> state (generateVideo loaded_page all_resolve loaded_page) = Error ''Please choose an image before generating.''
   \<and> new_events loaded_page (generateVideo loaded_page all_resolve loaded_page) =
          [SetState (Error ''Please choose an image before generating.'')]
   \<and> videoUrl (generateVideo loaded_page all_resolve loaded_page) = None"
proof -
  have h: "imageFile loaded_page = None"
    by (simp add: sample_defs prim_defs Let_def)
  have v: "videoUrl loaded_page = None"
    by (simp add: sample_defs prim_defs Let_def)
  note g = generateVideo_without_image [OF h, of all_resolve loaded_page]
  from g have a: "state (generateVideo loaded_page all_resolve loaded_page) =
      Error ''Please choose an image before generating.''"
    by (rule conjunct1)
  from g have b: "new_events loaded_page (generateVideo loaded_page all_resolve loaded_page) =
      [SetState (Error ''Please choose an image before generating.'')]"
    by blast
  from g have c: "videoUrl (generateVideo loaded_page all_resolve loaded_page) = videoUrl loaded_page"
    by blast
  show ?thesis
    using h a b c by (simp add: v)
qed

text \<open>
  C9. Given a file whose MIME type does not start with "image/", from the file
  input or from a drop, \<open>handleImageSelection\<close> sets the error state with the
  message "Unsupported file. Please select an image." and returns: the selected
  image and its preview URL stay as they were. Given \<open>null\<close> it clears both and
  sets no state.
\<close>

theorem handleImageSelection_guards:
  "(\<not> startsWith (ftype f) ''image/'' \<longrightarrow>
      handleImageSelection c (Some f) s =
        s\<lparr>state := Error ''Unsupported file. Please select an image.'',
          trace := trace s @ [SetState (Error ''Unsupported file. Please select an image.'')]\<rparr>
      \<and> imageFile (handleImageSelection c (Some f) s) = imageFile s
      \<and> imagePreview (handleImageSelection c (Some f) s) = imagePreview s
      \<and> handleFileChange c (f # files) s = handleImageSelection c (Some f) s
      \<and> handleDrop c (f # files) s = handleImageSelection c (Some f) s)
   \<and> handleImageSelection c None s = s\<lparr>imageFile := None, imagePreview := None\<rparr>
   \<and> state (handleImageSelection c None s) = state s
   \<and> new_events s (handleImageSelection c None s) = []
   \<and> handleFileChange c [] s = handleImageSelection c None s
   \<and> handleDrop c [] s = handleImageSelection c None s"
  by (simp add: handleImageSelection_def handleFileChange_def handleDrop_def first_file_def
      prim_defs new_events_def)

theorem handleImageSelection_guards_witness:
  "\<not> startsWith (ftype memo) ''image/''
   \<and> state (handleDrop with_photo [memo] with_photo) = Error ''Unsupported file. Please select an image.''
   \<and> imageFile (handleDrop with_photo [memo] with_photo) = Some photo
   \<and> imagePreview (handleDrop with_photo [memo] with_photo) = Some 0
   \<and> imageFile (handleImageSelection with_photo None with_photo) = None
   \<and> imagePreview (handleImageSelection with_photo None with_photo) = None"
proof -
  have h: "\<not> startsWith (ftype memo) ''image/''"
    by (simp add: startsWith_def memo_def)
  have p: "imageFile with_photo = Some photo" "imagePreview with_photo = Some 0"
    by (simp_all add: sample_defs prim_defs Let_def)
  note g = handleImageSelection_guards [of memo with_photo with_photo "[]"]
  from g h have a: "handleDrop with_photo [memo] with_photo =
      with_photo\<lparr>state := Error ''Unsupported file. Please select an image.'',
        trace := trace with_photo @ [SetState (Error ''Unsupported file. Please select an image.'')]\<rparr>"
    by simp
  from g have b: "handleImageSelection with_photo None with_photo =
      with_photo\<lparr>imageFile := None, imagePreview := None\<rparr>"
    by blast
  show ?thesis
    using h by (simp add: a b p)
qed

section \<open>When the module is loaded\<close>

lemmas step_defs = after_actions_def mount_def load_begin_def load_settle_def initial_def
  handleFileChange_def handleDrop_def first_file_def handleImageSelection_def startsWith_def
  render_def rerender_def cleanup_def slider_value_def fps_option_def controls_disabled_def ready_def ref_loaded_def isProcessing_def
  generateVideo_begin_def generateVideo_resume_def generateVideo_try_def generateVideo_catch_def
  await_def expose_def resetVideo_def binaryData_def photo_def all_resolve_def

text \<open>
  C5, as the code has it. The module is loaded at run time, but not on demand: the
  effect that runs when the component mounts starts the load, before any action
  of the user. Whatever the user then does, the library's load is never called
  again: Generate is disabled until a render has seen the module loaded, and
  \<open>load\<close> then returns the held instance.
\<close>

theorem module_loaded_once_at_mount:
  "library_loads (trace (ui mount)) = 1
   \<and> after_actions [] = mount
   \<and> library_loads (trace (ui (after_actions acts))) = 1"
  using consistent_mount consistent_after_actions [of acts]
  by (simp add: consistent_def after_actions_def)

theorem module_loaded_once_at_mount_witness:
  "library_loads (trace (ui (after_actions in_turn))) = 1
   \<and> length (filter creates_url (trace (ui (after_actions in_turn)))) = 3"
proof -
  have "length (filter creates_url (trace (ui (after_actions in_turn)))) = 3"
    by (simp add: in_turn_def step_defs prim_defs creates_url_def Let_def)
  with module_loaded_once_at_mount [of in_turn] show ?thesis
    by simp
qed

text \<open>
  C5 as the specification words it does not hold: before any action at all, the
  load has been started and no call of \<open>generateVideo\<close> is in flight.
\<close>

theorem load_started_before_any_action:
  "trace (ui (after_actions [])) =
     [FFmpeg_new, SetFFmpegState Loading,
      FFmpeg_load ''https://unpkg.com/@ffmpeg/core@0.12.9/dist/umd/ffmpeg-core.js''
        ''https://unpkg.com/@ffmpeg/core@0.12.9/dist/umd/ffmpeg-core.wasm''
        ''https://unpkg.com/@ffmpeg/core@0.12.9/dist/umd/ffmpeg-core.worker.js'']
   \<and> runs (after_actions []) = []
   \<and> mount_load (after_actions []) = Some \<lparr>loaded = False\<rparr>"
  by (simp add: step_defs prim_defs CORE_BASE_URL_def CORE_VERSION_def Let_def)

section \<open>Object URLs are transient\<close>

text \<open>
  C6. The component is written to keep one live object URL per slot: a handler
  revokes the URL its render saw before it installs another, and the cleanups
  revoke what the previous render saw. It does not always do so. A file chosen
  while a call of \<open>generateVideo\<close> is in flight sets the status to \<open>Idle\<close>
  (line 121), which enables Generate during that call. When the two calls then
  end before one render (\<open>settled_together\<close>), the first stores URL 2 in
  \<open>videoUrl\<close> and the second overwrites it with URL 3: no render ever saw
  URL 2, no closure holds it, and it stays live, also after the video is cleared.
  The same happens when the second click comes between the end of the first call
  and its render (\<open>clicked_before_render\<close>): \<open>resetVideo\<close> still sees no
  video and revokes nothing. When a render comes between the two ends
  (\<open>overlapping\<close>), URLs 2 and 3 are both live until the next render revokes
  URL 2. When each call ends and is rendered before the next starts
  (\<open>in_turn\<close>), there is one live URL per slot at every point.
\<close>

theorem object_url_left_live:
  "videoUrl (ui (after_actions settled_together)) = Some 3
   \<and> imagePreview (ui (after_actions settled_together)) = Some 1
   \<and> video_urls (live_urls [] (trace (ui (after_actions settled_together)))) = [2, 3]
   \<and> objectURLs (ui (after_actions settled_together)) 2 = Some (OfBlob [0, 0, 0, 24] ''video/mp4'')
   \<and> \<not> one_per_slot (live_urls [] (trace (ui (after_actions settled_together))))
   \<and> videoUrl (ui (after_actions (settled_together @ [ClearVideoClick]))) = None
   \<and> video_urls (live_urls []
         (trace (ui (after_actions (settled_together @ [ClearVideoClick]))))) = [2]
   \<and> videoUrl (ui (after_actions clicked_before_render)) = Some 3
   \<and> video_urls (live_urls [] (trace (ui (after_actions clicked_before_render)))) = [2, 3]
   \<and> videoUrl (ui (after_actions overlapping)) = Some 3
   \<and> video_urls (live_urls [] (trace (ui (after_actions overlapping)))) = [2, 3]
   \<and> \<not> at_every_point one_per_slot [] (trace (ui (after_actions overlapping)))
   \<and> video_urls (live_urls [] (trace (ui (after_actions (overlapping @ [Render]))))) = [3]
   \<and> at_every_point one_per_slot [] (trace (ui (after_actions in_turn)))"
  by (simp add: settled_together_def clicked_before_render_def overlapping_def in_turn_def
      step_defs prim_defs one_per_slot_def image_urls_def video_urls_def for_image_def Let_def)

end
